theory Spec2Isabelle
  imports Complex_Main "HOL-Library.Word"
begin

section \<open>Python values: exceptions, images, floats\<close>

text \<open>
  The comparison engine of the repository lives in two files: \<^verbatim>\<open>preprocess.py\<close>
  (\<^verbatim>\<open>preprocess_image\<close>) and \<^verbatim>\<open>compare_ssim_mse.py\<close> (\<^verbatim>\<open>mse\<close>,
  \<^verbatim>\<open>compare_with_dataset\<close>). Both are embedded here.

  Exceptions are values. Every constructor below stands for a subclass of Python's
  \<^verbatim>\<open>Exception\<close>. \<^verbatim>\<open>UnicodeEncodeError\<close> is a subclass of \<^verbatim>\<open>ValueError\<close>, so a clause
  \<^verbatim>\<open>except ValueError\<close> catches both; \<^verbatim>\<open>PermissionError\<close> is a subclass of \<^verbatim>\<open>OSError\<close>;
  \<^verbatim>\<open>Cv2Error\<close> is OpenCV's \<^verbatim>\<open>cv2.error\<close>.
\<close>

datatype py_exception =
  ValueError | UnicodeEncodeError | OSError | PermissionError | Cv2Error | OtherException

definition is_ValueError :: "py_exception \<Rightarrow> bool" where
  "is_ValueError e \<longleftrightarrow> e = ValueError \<or> e = UnicodeEncodeError"

text \<open>The text of an exception in a message: only its class is kept.\<close>

fun exception_text :: "py_exception \<Rightarrow> string" where
  "exception_text ValueError = ''ValueError''"
| "exception_text UnicodeEncodeError = ''UnicodeEncodeError''"
| "exception_text OSError = ''OSError''"
| "exception_text PermissionError = ''PermissionError''"
| "exception_text Cv2Error = ''cv2.error''"
| "exception_text OtherException = ''Exception''"

text \<open>
  A decoded grayscale image is a grid of unsigned bytes (\<^verbatim>\<open>numpy.uint8\<close>), row by row.
  After \<^verbatim>\<open>astype(np.float32) / 255.0\<close> it is a grid of numbers between 0 and 1 (the
  rounding of the pixels to single precision is not represented: no property below
  depends on the value of a pixel).
\<close>

type_synonym image = "8 word list list"
type_synonym fimage = "real list list"

text \<open>\<^verbatim>\<open>array.shape\<close> of a two-dimensional array: (rows, columns).\<close>

definition shape :: "'a list list \<Rightarrow> nat \<times> nat" where
  "shape img = (length img, if img = [] then 0 else length (hd img))"

text \<open>\<^verbatim>\<open>img.astype(np.float32) / 255.0\<close>\<close>

definition to_float :: "image \<Rightarrow> fimage" where
  "to_float img = map (map (\<lambda>p. real (unat p) / 255)) img"

subsection \<open>Double precision\<close>

text \<open>
  A Python \<^verbatim>\<open>float\<close> is an IEEE 754 binary64 number. It is modelled as the real number
  it denotes, and every arithmetic operation of the source rounds its exact result to
  the nearest binary64 number, a tie going to the even significand: \<open>binade\<close> is the
  exponent of the result (not below \<open>-1022\<close>, where the subnormal numbers begin),
  \<open>quantum\<close> the spacing of the binary64 numbers at that exponent (53 significant
  bits), \<open>fl\<close> the rounding. Overflow to infinity and NaN are not represented: the
  numbers of a run are similarity scores (between \<open>-1\<close> and 1), percentages and their
  differences, far below the overflow threshold. \<^verbatim>\<open>float("inf")\<close> occurs once, in the
  initial best-match tracker.
\<close>

definition round_half_even :: "real \<Rightarrow> int" where
  "round_half_even x =
     (let f = \<lfloor>x\<rfloor>; d = x - of_int f
      in if d < 1 / 2 then f
         else if 1 / 2 < d then f + 1
         else if even f then f else f + 1)"

definition binade :: "real \<Rightarrow> int" where
  "binade x = max \<lfloor>log 2 \<bar>x\<bar>\<rfloor> (- 1022)"

definition quantum :: "real \<Rightarrow> real" where
  "quantum x = 2 powr of_int (binade x - 52)"

definition fl :: "real \<Rightarrow> real" where
  "fl x = (if x = 0 then 0 else of_int (round_half_even (x / quantum x)) * quantum x)"

definition float_add :: "real \<Rightarrow> real \<Rightarrow> real" where
  "float_add a b = fl (a + b)"

definition float_sub :: "real \<Rightarrow> real \<Rightarrow> real" where
  "float_sub a b = fl (a - b)"

definition float_mul :: "real \<Rightarrow> real \<Rightarrow> real" where
  "float_mul a b = fl (a * b)"

definition float_div :: "real \<Rightarrow> real \<Rightarrow> real" where
  "float_div a b = fl (a / b)"

text \<open>
  Python's \<^verbatim>\<open>round(x, ndigits)\<close> on a float: the exact value of \<open>x\<close> is rounded to
  \<open>ndigits\<close> decimals, a tie going to the even digit, and the decimal result is
  converted to the nearest binary64 number.
\<close>

definition py_round :: "real \<Rightarrow> nat \<Rightarrow> real" where
  "py_round x ndigits = fl (of_int (round_half_even (x * 10 ^ ndigits)) / 10 ^ ndigits)"

text \<open>
  The unit roundoff, the smallest normal number and the smallest positive number of
  binary64; a number is a double when it is a value of \<open>fl\<close>.
\<close>

definition unit_roundoff :: real where
  "unit_roundoff = 2 powr (- 53)"

definition min_normal :: real where
  "min_normal = 2 powr (- 1022)"

definition min_quantum :: real where
  "min_quantum = 2 powr (- 1074)"

datatype pyfloat = Finite real | Infinity

section \<open>The world outside the repository\<close>

text \<open>
  Everything the two files call but do not define is a field of the environment:
  the file system (\<^verbatim>\<open>os.path.isdir\<close>, \<^verbatim>\<open>os.listdir\<close>, the value of
  \<^verbatim>\<open>BASE_DATA_DIR\<close>), the standard output (\<^verbatim>\<open>print\<close>), the random source
  (\<^verbatim>\<open>random.sample\<close>, which reads and advances a random state of type \<open>'g\<close>), OpenCV
  and scikit-image. A library call that can fail returns \<open>Inl\<close> of the exception it
  raises; \<^verbatim>\<open>print_stdout\<close> returns the exception that \<^verbatim>\<open>print\<close> raises for a text, if
  any (the standard output may be closed, or unable to encode the text).
  \<^verbatim>\<open>cv2.imread\<close> returns \<^verbatim>\<open>None\<close> for a file it cannot read. \<^verbatim>\<open>cv2.resize\<close> takes
  the target size as (width, height). \<^verbatim>\<open>clahe_apply\<close> stands for
  \<^verbatim>\<open>cv2.createCLAHE(clipLimit=2.0, tileGridSize=(8, 8)).apply\<close>, \<^verbatim>\<open>cv2_GaussianBlur\<close>
  for the blur with kernel (3, 3) and sigma 0, \<^verbatim>\<open>cv2_normalize\<close> for the min-max
  normalisation to 0..255, \<^verbatim>\<open>skimage_ssim\<close> for \<^verbatim>\<open>structural_similarity\<close> with
  \<^verbatim>\<open>data_range=1.0\<close>, converted by \<^verbatim>\<open>float\<close>.
\<close>

record 'g env =
  BASE_DATA_DIR :: string
  os_isdir :: "string \<Rightarrow> bool"
  os_listdir :: "string \<Rightarrow> py_exception + string list"
  print_stdout :: "string \<Rightarrow> py_exception option"
  random_sample :: "'g \<Rightarrow> string list \<Rightarrow> nat \<Rightarrow> string list \<times> 'g"
  cv2_imread :: "string \<Rightarrow> py_exception + image option"
  cv2_resize :: "image \<Rightarrow> nat \<times> nat \<Rightarrow> py_exception + image"
  cv2_normalize :: "image \<Rightarrow> py_exception + image"
  clahe_apply :: "image \<Rightarrow> py_exception + image"
  cv2_GaussianBlur :: "image \<Rightarrow> py_exception + image"
  cv2_resize_f32 :: "fimage \<Rightarrow> nat \<times> nat \<Rightarrow> py_exception + fimage"
  skimage_ssim :: "fimage \<Rightarrow> fimage \<Rightarrow> py_exception + real"

section \<open>preprocess.py\<close>

text \<open>
  The body of the \<^verbatim>\<open>try\<close> block of \<^verbatim>\<open>preprocess_image\<close>: each library call either
  raises or hands its result to the next one.
\<close>

definition preprocess_body :: "'g env \<Rightarrow> string \<Rightarrow> py_exception + image option" where
  "preprocess_body env image_path =
     (case cv2_imread env image_path of
        Inl e \<Rightarrow> Inl e
      | Inr None \<Rightarrow> Inr None
      | Inr (Some img) \<Rightarrow>
          (case cv2_resize env img (512, 512) of
             Inl e \<Rightarrow> Inl e
           | Inr img1 \<Rightarrow>
               (case cv2_normalize env img1 of
                  Inl e \<Rightarrow> Inl e
                | Inr img2 \<Rightarrow>
                    (case clahe_apply env img2 of
                       Inl e \<Rightarrow> Inl e
                     | Inr img3 \<Rightarrow>
                         (case cv2_GaussianBlur env img3 of
                            Inl e \<Rightarrow> Inl e
                          | Inr img4 \<Rightarrow> Inr (Some img4))))))"

text \<open>The text of line 28: \<^verbatim>\<open>f"Preprocessing error for {image_path}: {e}"\<close>.\<close>

definition error_message :: "string \<Rightarrow> py_exception \<Rightarrow> string" where
  "error_message image_path e =
     ''Preprocessing error for '' @ image_path @ '': '' @ exception_text e"

text \<open>
  \<^verbatim>\<open>except Exception as e: print(...); return None\<close>: every exception of the body is
  caught (all constructors of \<^typ>\<open>py_exception\<close> are subclasses of \<^verbatim>\<open>Exception\<close>), the
  message is printed, and \<^verbatim>\<open>None\<close> is returned. An exception raised by \<^verbatim>\<open>print\<close> itself
  is raised inside the handler and leaves the function.
\<close>

definition preprocess_image :: "'g env \<Rightarrow> string \<Rightarrow> py_exception + image option" where
  "preprocess_image env image_path =
     (case preprocess_body env image_path of
        Inl e \<Rightarrow>
          (case print_stdout env (error_message image_path e) of
             Some e' \<Rightarrow> Inl e'
           | None \<Rightarrow> Inr None)
      | Inr r \<Rightarrow> Inr r)"

text \<open>
  What the OpenCV documentation promises of the four image operations when they
  succeed: \<^verbatim>\<open>resize\<close> returns an image of the requested size, the other three keep the
  size of their input.
\<close>

definition cv2_contract :: "'g env \<Rightarrow> bool" where
  "cv2_contract env \<longleftrightarrow>
     (\<forall>img w h out. cv2_resize env img (w, h) = Inr out \<longrightarrow> shape out = (h, w)) \<and>
     (\<forall>img out. cv2_normalize env img = Inr out \<longrightarrow> shape out = shape img) \<and>
     (\<forall>img out. clahe_apply env img = Inr out \<longrightarrow> shape out = shape img) \<and>
     (\<forall>img out. cv2_GaussianBlur env img = Inr out \<longrightarrow> shape out = shape img)"

section \<open>compare\_ssim\_mse.py\<close>

subsection \<open>Helpers of the Python library\<close>

text \<open>
  \<^verbatim>\<open>str.lower\<close> restricted to ASCII letters (the three suffixes tested below are ASCII),
  \<^verbatim>\<open>str.endswith\<close>, and \<^verbatim>\<open>os.path.join\<close> of two components on a POSIX system.
\<close>

definition lower_char :: "char \<Rightarrow> char" where
  "lower_char c =
     (let n = (of_char c :: nat) in if 65 \<le> n \<and> n \<le> 90 then char_of (n + 32) else c)"

definition lower :: "string \<Rightarrow> string" where
  "lower s = map lower_char s"

definition endswith :: "string \<Rightarrow> string \<Rightarrow> bool" where
  "endswith s suffix \<longleftrightarrow>
     length suffix \<le> length s \<and> drop (length s - length suffix) s = suffix"

definition path_join :: "string \<Rightarrow> string \<Rightarrow> string" where
  "path_join a b =
     (if b \<noteq> [] \<and> hd b = CHR ''/'' then b
      else if a = [] \<or> last a = CHR ''/'' then a @ b
      else a @ ''/'' @ b)"

text \<open>
  \<^verbatim>\<open>float(numpy.median(xs))\<close> of a non-empty list of doubles: the middle element of the
  sorted list, or the mean of the two middle elements, computed as their rounded sum
  divided by two. The source calls it on non-empty lists only.
\<close>

definition median :: "real list \<Rightarrow> real" where
  "median xs =
     (let s = sort xs; n = length s
      in if n mod 2 = 1 then s ! (n div 2)
         else float_div (float_add (s ! (n div 2 - 1)) (s ! (n div 2))) 2)"

subsection \<open>mse\<close>

text \<open>
  \<^verbatim>\<open>float(np.mean((a - b) ** 2))\<close>. Subtracting two arrays of different shapes raises
  \<^verbatim>\<open>ValueError\<close> (numpy's broadcasting of a dimension of size one is not modelled: at
  the only call both arrays have passed the shape test of the caller). The value is
  the exact mean of the squares; numpy computes it in single precision, and no property
  below depends on the value.
\<close>

definition mse :: "fimage \<Rightarrow> fimage \<Rightarrow> py_exception + real" where
  "mse a b =
     (if shape a \<noteq> shape b then Inl ValueError
      else Inr (sum_list (map2 (\<lambda>ra rb. sum_list (map2 (\<lambda>x y. (x - y)\<^sup>2) ra rb)) a b)
                / real (fst (shape a) * snd (shape a))))"

subsection \<open>The data of a run\<close>

text \<open>
  An entry of the local dictionary \<^verbatim>\<open>results_summary\<close>, the best-match tracker, and the
  returned record. \<^verbatim>\<open>None\<close> is \<open>None\<close>. The three prediction strings are
  "Uncertain Result (SSIM scores too close)", "Pneumonia Detected" and "Normal Lungs"
  (each followed by an emoji in the source).
\<close>

record category_summary =
  avg_ssim :: "real option"
  avg_mse :: "real option"
  samples_compared :: nat

record best =
  category :: "string option"
  ssim :: real
  mse_of :: pyfloat
  path :: "string option"

datatype prediction_text = Uncertain_Result | Pneumonia_Detected | Normal_Lungs

record summary_entry =
  entry_avg_ssim :: real
  entry_avg_mse :: "real option"
  similarity_percent :: real
  entry_samples_compared :: nat

record comparison =
  best_match :: "best option"
  summary :: "string \<rightharpoonup> summary_entry"
  confidence_diff :: real
  prediction :: prediction_text

type_synonym results_summary = "string \<rightharpoonup> category_summary"

text \<open>The state of the loop over the categories: the dictionary, the tracker, the random state.\<close>

type_synonym 'g run_state = "results_summary \<times> best \<times> 'g"

definition initial_best :: best where
  "initial_best = \<lparr>category = None, ssim = - 1, mse_of = Infinity, path = None\<rparr>"

definition no_samples :: category_summary where
  "no_samples = \<lparr>avg_ssim = None, avg_mse = None, samples_compared = 0\<rparr>"

subsection \<open>One sampled file\<close>

text \<open>
  Lines 57 to 68 of the loop body: normalise the file, rescale it, resize it when its
  shape differs from the input's, compute both metrics. The result is \<open>Inr None\<close> when
  the file is skipped (\<^verbatim>\<open>continue\<close>), \<open>Inr (Some (s, m))\<close> when both metrics were computed,
  and \<open>Inl e\<close> when an exception leaves the loop: only \<^verbatim>\<open>ValueError\<close> and its subclasses
  are caught, and only around the two metrics.
\<close>

definition compare_sample :: "'g env \<Rightarrow> fimage \<Rightarrow> string \<Rightarrow> py_exception + (real \<times> real) option" where
  "compare_sample env uploaded p =
     (case preprocess_image env p of
        Inl e \<Rightarrow> Inl e
      | Inr None \<Rightarrow> Inr None
      | Inr (Some img8) \<Rightarrow>
          (let img = to_float img8 in
           (case (if shape img \<noteq> shape uploaded
                  then cv2_resize_f32 env img (snd (shape uploaded), fst (shape uploaded))
                  else Inr img) of
              Inl e \<Rightarrow> Inl e
            | Inr img' \<Rightarrow>
                (case skimage_ssim env uploaded img' of
                   Inl e \<Rightarrow> (if is_ValueError e then Inr None else Inl e)
                 | Inr s \<Rightarrow>
                     (case mse uploaded img' of
                        Inl e \<Rightarrow> (if is_ValueError e then Inr None else Inl e)
                      | Inr m \<Rightarrow> Inr (Some (s, m)))))))"

subsection \<open>The loop over the sampled files of one category\<close>

type_synonym scores = "real list \<times> real list \<times> best"

fun sample_loop :: "'g env \<Rightarrow> fimage \<Rightarrow> string \<Rightarrow> string list \<Rightarrow> scores \<Rightarrow> py_exception + scores" where
  "sample_loop env uploaded cat [] acc = Inr acc"
| "sample_loop env uploaded cat (p # ps) (ssim_scores, mse_scores, bm) =
     (case compare_sample env uploaded p of
        Inl e \<Rightarrow> Inl e
      | Inr None \<Rightarrow> sample_loop env uploaded cat ps (ssim_scores, mse_scores, bm)
      | Inr (Some (s, m)) \<Rightarrow>
          sample_loop env uploaded cat ps
            (ssim_scores @ [s], mse_scores @ [m],
             if ssim bm < s
             then \<lparr>category = Some cat, ssim = s, mse_of = Finite m, path = Some p\<rparr>
             else bm))"

subsection \<open>One category\<close>

text \<open>Lines 46 and 47: the listed names that pass the extension filter, joined to the directory.\<close>

definition is_image_name :: "string \<Rightarrow> bool" where
  "is_image_name f \<longleftrightarrow>
     endswith (lower f) ''.jpg'' \<or> endswith (lower f) ''.jpeg'' \<or> endswith (lower f) ''.png''"

definition image_files :: "string \<Rightarrow> string list \<Rightarrow> string list" where
  "image_files cat_dir names = map (path_join cat_dir) (filter is_image_name names)"

text \<open>
  The body of the loop over the categories. \<^verbatim>\<open>os.listdir\<close> is called outside any
  \<^verbatim>\<open>try\<close>: an exception it raises leaves the function. \<^verbatim>\<open>random.sample(population, k)\<close>
  raises \<^verbatim>\<open>ValueError\<close> when \<open>k\<close> is negative, which happens exactly when
  \<^verbatim>\<open>sample_size\<close> is.
\<close>

definition process_category :: "'g env \<Rightarrow> fimage \<Rightarrow> int \<Rightarrow> string \<Rightarrow> 'g run_state \<Rightarrow> py_exception + 'g run_state" where
  "process_category env uploaded sample_size cat st =
     (case st of (results, bm, g) \<Rightarrow>
        if \<not> os_isdir env (path_join (BASE_DATA_DIR env) cat)
        then Inr (results(cat \<mapsto> no_samples), bm, g)
        else
          (case os_listdir env (path_join (BASE_DATA_DIR env) cat) of
             Inl e \<Rightarrow> Inl e
           | Inr names \<Rightarrow>
               (let files = image_files (path_join (BASE_DATA_DIR env) cat) names in
                if files = [] then Inr (results(cat \<mapsto> no_samples), bm, g)
                else
                  (let k = min sample_size (int (length files)) in
                   if k < 0 then Inl ValueError
                   else
                     (case random_sample env g files (nat k) of (sampled, g') \<Rightarrow>
                        (case sample_loop env uploaded cat sampled ([], [], bm) of
                           Inl e \<Rightarrow> Inl e
                         | Inr (ssim_scores, mse_scores, bm') \<Rightarrow>
                             Inr (results(cat \<mapsto>
                                    \<lparr>avg_ssim = (if ssim_scores \<noteq> [] then Some (median ssim_scores) else None),
                                     avg_mse = (if mse_scores \<noteq> [] then Some (median mse_scores) else None),
                                     samples_compared = length ssim_scores\<rparr>),
                                  bm', g')))))))"

fun category_loop :: "'g env \<Rightarrow> fimage \<Rightarrow> int \<Rightarrow> string list \<Rightarrow> 'g run_state \<Rightarrow> py_exception + 'g run_state" where
  "category_loop env uploaded sample_size [] st = Inr st"
| "category_loop env uploaded sample_size (cat # cats) st =
     (case process_category env uploaded sample_size cat st of
        Inl e \<Rightarrow> Inl e
      | Inr st' \<Rightarrow> category_loop env uploaded sample_size cats st')"

subsection \<open>The verdict and the returned record\<close>

text \<open>
  \<^verbatim>\<open>results_summary.get(key, {}).get("avg_ssim") or 0.0\<close>: a missing key, a \<^verbatim>\<open>None\<close>
  and a zero all give \<open>0.0\<close>. The two other \<^verbatim>\<open>get\<close> chains follow.
\<close>

definition score_of :: "results_summary \<Rightarrow> string \<Rightarrow> real" where
  "score_of results key =
     (case results key of
        None \<Rightarrow> 0
      | Some e \<Rightarrow> (case avg_ssim e of None \<Rightarrow> 0 | Some x \<Rightarrow> if x = 0 then 0 else x))"

definition avg_mse_of :: "results_summary \<Rightarrow> string \<Rightarrow> real option" where
  "avg_mse_of results key = (case results key of None \<Rightarrow> None | Some e \<Rightarrow> avg_mse e)"

definition samples_compared_of :: "results_summary \<Rightarrow> string \<Rightarrow> nat" where
  "samples_compared_of results key = (case results key of None \<Rightarrow> 0 | Some e \<Rightarrow> samples_compared e)"

text \<open>Truth value of \<^verbatim>\<open>best_match["path"]\<close>: neither \<^verbatim>\<open>None\<close> nor the empty string.\<close>

definition truthy_path :: "string option \<Rightarrow> bool" where
  "truthy_path p = (case p of None \<Rightarrow> False | Some s \<Rightarrow> s \<noteq> [])"

text \<open>
  Lines 87 to 122: the scores, the margin, the verdict, the percentages, the record.
  The literal \<^verbatim>\<open>0.02\<close> is the double nearest to 2/100; \<^verbatim>\<open>abs\<close> and the comparisons of
  doubles are exact; the subtraction, the addition, the two divisions and the two
  multiplications round.
\<close>

definition build_result :: "results_summary \<Rightarrow> best \<Rightarrow> comparison" where
  "build_result results bm' =
     (let normal_score = score_of results ''NORMAL'';
          pneu_score = score_of results ''PNEUMONIA'';
          diff = \<bar>float_sub pneu_score normal_score\<bar>;
          prediction' = (if diff < fl (2 / 100) then Uncertain_Result
                         else if normal_score < pneu_score then Pneumonia_Detected
                         else Normal_Lungs);
          total = (if 0 < float_add normal_score pneu_score
                   then float_add normal_score pneu_score else 1);
          normal_percent = float_mul (float_div normal_score total) 100;
          pneu_percent = float_mul (float_div pneu_score total) 100
      in \<lparr>best_match = (if truthy_path (path bm') then Some bm' else None),
          summary = [''NORMAL'' \<mapsto>
                       \<lparr>entry_avg_ssim = normal_score,
                        entry_avg_mse = avg_mse_of results ''NORMAL'',
                        similarity_percent = py_round normal_percent 2,
                        entry_samples_compared = samples_compared_of results ''NORMAL''\<rparr>,
                     ''PNEUMONIA'' \<mapsto>
                       \<lparr>entry_avg_ssim = pneu_score,
                        entry_avg_mse = avg_mse_of results ''PNEUMONIA'',
                        similarity_percent = py_round pneu_percent 2,
                        entry_samples_compared = samples_compared_of results ''PNEUMONIA''\<rparr>],
          confidence_diff = py_round diff 4,
          prediction = prediction'\<rparr>)"

subsection \<open>compare\_with\_dataset\<close>

text \<open>
  The call takes the random state the run starts with. It raises \<^verbatim>\<open>ValueError\<close> when
  the uploaded image cannot be preprocessed; otherwise it runs the loop from the empty
  dictionary and the initial tracker and builds the record.
\<close>

definition compare_with_dataset :: "'g env \<Rightarrow> 'g \<Rightarrow> string \<Rightarrow> int \<Rightarrow> string list \<Rightarrow> py_exception + comparison" where
  "compare_with_dataset env g uploaded_image_path sample_size categories =
     (case preprocess_image env uploaded_image_path of
        Inl e \<Rightarrow> Inl e
      | Inr None \<Rightarrow> Inl ValueError
      | Inr (Some uploaded8) \<Rightarrow>
          (case category_loop env (to_float uploaded8) sample_size categories
                  (Map.empty, initial_best, g) of
             Inl e \<Rightarrow> Inl e
           | Inr (results, bm', g') \<Rightarrow> Inr (build_result results bm')))"

section \<open>The samples of a run\<close>

text \<open>
  The properties of a run speak of the files it sampled and of the samples it compared
  successfully. A scored sample is (category, path, similarity, error). \<open>scored\<close> lists,
  in the order of the loop, the files of a sampled list for which both metrics were
  computed. \<open>eligible_files\<close> are the files of a category that lines 46 and 47 keep,
  \<open>population\<close> the same with none for an absent directory. \<open>draw\<close> is the list
  \<^verbatim>\<open>sampled\<close> of a category together with the random state after it (nothing is drawn
  for a category without directory or without files); \<open>run_scored\<close> chains the draws over
  the categories from the random state of the call, and \<open>all_scored\<close> starts from the
  uploaded path. \<open>track\<close> is the update of the best-match tracker (lines 73 and 74),
  \<open>summarize\<close> the dictionary entry built from the scores of a category (lines 77 to 84);
  \<open>similarity\<close>, \<open>error_of\<close> and \<open>as_best\<close> read a scored sample.
\<close>

type_synonym scored_sample = "string \<times> string \<times> real \<times> real"

definition track :: "best \<Rightarrow> scored_sample \<Rightarrow> best" where
  "track bm x =
     (case x of (cat, p, s, m) \<Rightarrow>
        if ssim bm < s then \<lparr>category = Some cat, ssim = s, mse_of = Finite m, path = Some p\<rparr>
        else bm)"

definition scored :: "'g env \<Rightarrow> fimage \<Rightarrow> string \<Rightarrow> string list \<Rightarrow> scored_sample list" where
  "scored env uploaded cat ps =
     concat (map (\<lambda>p. case compare_sample env uploaded p of
                         Inr (Some (s, m)) \<Rightarrow> [(cat, p, s, m)]
                       | _ \<Rightarrow> []) ps)"

definition eligible_files :: "'g env \<Rightarrow> string \<Rightarrow> string list" where
  "eligible_files env cat =
     (case os_listdir env (path_join (BASE_DATA_DIR env) cat) of
        Inl e \<Rightarrow> []
      | Inr names \<Rightarrow> image_files (path_join (BASE_DATA_DIR env) cat) names)"

definition population :: "'g env \<Rightarrow> string \<Rightarrow> string list" where
  "population env cat =
     (if os_isdir env (path_join (BASE_DATA_DIR env) cat) then eligible_files env cat else [])"

definition draw :: "'g env \<Rightarrow> int \<Rightarrow> string \<Rightarrow> 'g \<Rightarrow> string list \<times> 'g" where
  "draw env sample_size cat g =
     (if \<not> os_isdir env (path_join (BASE_DATA_DIR env) cat) \<or> eligible_files env cat = []
      then ([], g)
      else random_sample env g (eligible_files env cat)
             (nat (min sample_size (int (length (eligible_files env cat))))))"

fun run_scored :: "'g env \<Rightarrow> fimage \<Rightarrow> int \<Rightarrow> string list \<Rightarrow> 'g \<Rightarrow> scored_sample list" where
  "run_scored env uploaded sample_size [] g = []"
| "run_scored env uploaded sample_size (cat # cats) g =
     (case draw env sample_size cat g of (ps, g') \<Rightarrow>
        scored env uploaded cat ps @ run_scored env uploaded sample_size cats g')"

definition all_scored :: "'g env \<Rightarrow> 'g \<Rightarrow> string \<Rightarrow> int \<Rightarrow> string list \<Rightarrow> scored_sample list" where
  "all_scored env g uploaded_image_path sample_size categories =
     (case preprocess_image env uploaded_image_path of
        Inr (Some uploaded8) \<Rightarrow> run_scored env (to_float uploaded8) sample_size categories g
      | _ \<Rightarrow> [])"

definition similarity :: "scored_sample \<Rightarrow> real" where
  "similarity x = fst (snd (snd x))"

definition error_of :: "scored_sample \<Rightarrow> real" where
  "error_of x = snd (snd (snd x))"

definition as_best :: "scored_sample \<Rightarrow> best" where
  "as_best x = (case x of (cat, p, s, m) \<Rightarrow>
      \<lparr>category = Some cat, ssim = s, mse_of = Finite m, path = Some p\<rparr>)"

definition summarize :: "scored_sample list \<Rightarrow> category_summary" where
  "summarize xs =
     \<lparr>avg_ssim = (if xs \<noteq> [] then Some (median (map similarity xs)) else None),
      avg_mse = (if xs \<noteq> [] then Some (median (map error_of xs)) else None),
      samples_compared = length xs\<rparr>"

text \<open>
  The scores that decide a run. A category may occur several times among those of a
  call, and the dictionary keeps the entry of its last occurrence: \<open>last_draw\<close> is the
  list sampled for that occurrence (\<open>None\<close> for a category that does not occur), the
  random state being threaded through all the categories of the call.
  \<open>category_median\<close> is the median similarity of the samples compared from that list,
  and 0 when there are none.
\<close>

fun last_draw :: "'g env \<Rightarrow> int \<Rightarrow> string list \<Rightarrow> 'g \<Rightarrow> string \<Rightarrow> string list option" where
  "last_draw env sample_size [] g key = None"
| "last_draw env sample_size (cat # cats) g key =
     (case last_draw env sample_size cats (snd (draw env sample_size cat g)) key of
        Some ps \<Rightarrow> Some ps
      | None \<Rightarrow> if cat = key then Some (fst (draw env sample_size cat g)) else None)"

definition median_or_zero :: "real list \<Rightarrow> real" where
  "median_or_zero xs = (if xs = [] then 0 else median xs)"

definition category_median :: "'g env \<Rightarrow> 'g \<Rightarrow> string \<Rightarrow> int \<Rightarrow> string list \<Rightarrow> string \<Rightarrow> real" where
  "category_median env g uploaded_image_path sample_size categories key =
     (case preprocess_image env uploaded_image_path of
        Inr (Some uploaded8) \<Rightarrow>
          (case last_draw env sample_size categories g key of
             None \<Rightarrow> 0
           | Some ps \<Rightarrow> median_or_zero (map similarity (scored env (to_float uploaded8) key ps)))
      | _ \<Rightarrow> 0)"

text \<open>
  Two worlds give a call the same inputs when they agree on everything the call can
  read or write: the libraries and the standard output, the random source, the data
  directory, the uploaded file, and, for every category of the call, whether its
  directory exists, what it lists and what its eligible files decode to. They may
  differ anywhere else.
\<close>

definition same_inputs :: "'g env \<Rightarrow> 'g env \<Rightarrow> string \<Rightarrow> string list \<Rightarrow> bool" where
  "same_inputs env1 env2 uploaded_image_path categories \<longleftrightarrow>
     BASE_DATA_DIR env1 = BASE_DATA_DIR env2 \<and>
     random_sample env1 = random_sample env2 \<and>
     print_stdout env1 = print_stdout env2 \<and>
     cv2_resize env1 = cv2_resize env2 \<and>
     cv2_normalize env1 = cv2_normalize env2 \<and>
     clahe_apply env1 = clahe_apply env2 \<and>
     cv2_GaussianBlur env1 = cv2_GaussianBlur env2 \<and>
     cv2_resize_f32 env1 = cv2_resize_f32 env2 \<and>
     skimage_ssim env1 = skimage_ssim env2 \<and>
     cv2_imread env1 uploaded_image_path = cv2_imread env2 uploaded_image_path \<and>
     (\<forall>cat \<in> set categories.
        os_isdir env1 (path_join (BASE_DATA_DIR env1) cat) =
          os_isdir env2 (path_join (BASE_DATA_DIR env1) cat) \<and>
        (os_isdir env1 (path_join (BASE_DATA_DIR env1) cat) \<longrightarrow>
           os_listdir env1 (path_join (BASE_DATA_DIR env1) cat) =
             os_listdir env2 (path_join (BASE_DATA_DIR env1) cat) \<and>
           (\<forall>f \<in> set (eligible_files env1 cat). cv2_imread env1 f = cv2_imread env2 f)))"

definition same_library :: "'g env \<Rightarrow> 'g env \<Rightarrow> bool" where
  "same_library env1 env2 \<longleftrightarrow>
     print_stdout env1 = print_stdout env2 \<and>
     cv2_resize env1 = cv2_resize env2 \<and>
     cv2_normalize env1 = cv2_normalize env2 \<and>
     clahe_apply env1 = clahe_apply env2 \<and>
     cv2_GaussianBlur env1 = cv2_GaussianBlur env2 \<and>
     cv2_resize_f32 env1 = cv2_resize_f32 env2 \<and>
     skimage_ssim env1 = skimage_ssim env2"

text \<open>
  What is assumed of the world where a property needs it.
  \<^verbatim>\<open>structural_similarity\<close> raises nothing but \<^verbatim>\<open>ValueError\<close> or a subclass
  (\<open>ssim_errors\<close>); in \<open>ssim_contract\<close> its value is moreover above \<open>-1\<close> (for images
  in the range 0..1 with \<^verbatim>\<open>data_range=1.0\<close> the stabilising constants keep every local
  value above \<open>-1\<close>); its value is a double between \<open>-1\<close> and 1 (\<open>ssim_doubles\<close>).
  \<^verbatim>\<open>random.sample(population, k)\<close> returns \<open>k\<close> elements of the population.
  The standard output accepts every text. The directories of the categories of a call
  can be listed.
\<close>

definition ssim_errors :: "'g env \<Rightarrow> bool" where
  "ssim_errors env \<longleftrightarrow> (\<forall>a b e. skimage_ssim env a b = Inl e \<longrightarrow> is_ValueError e)"

definition ssim_contract :: "'g env \<Rightarrow> bool" where
  "ssim_contract env \<longleftrightarrow>
     (\<forall>a b e. skimage_ssim env a b = Inl e \<longrightarrow> is_ValueError e) \<and>
     (\<forall>a b s. skimage_ssim env a b = Inr s \<longrightarrow> - 1 < s)"

definition ssim_doubles :: "'g env \<Rightarrow> bool" where
  "ssim_doubles env \<longleftrightarrow>
     (\<forall>a b s. skimage_ssim env a b = Inr s \<longrightarrow> s \<in> range fl \<and> \<bar>s\<bar> \<le> 1)"

definition sample_contract :: "'g env \<Rightarrow> bool" where
  "sample_contract env \<longleftrightarrow>
     (\<forall>g xs k. k \<le> length xs \<longrightarrow>
        length (fst (random_sample env g xs k)) = k \<and>
        set (fst (random_sample env g xs k)) \<subseteq> set xs)"

definition print_succeeds :: "'g env \<Rightarrow> bool" where
  "print_succeeds env \<longleftrightarrow> (\<forall>text. print_stdout env text = None)"

definition listing_succeeds :: "'g env \<Rightarrow> string list \<Rightarrow> bool" where
  "listing_succeeds env categories \<longleftrightarrow>
     (\<forall>cat \<in> set categories. \<forall>e. os_listdir env (path_join (BASE_DATA_DIR env) cat) \<noteq> Inl e)"

section \<open>Example worlds\<close>

text \<open>
  A small world on which the definitions are run: the data directory holds one image
  per category (and a text file that the extension filter drops) and a third directory
  \<^verbatim>\<open>EXTRA\<close> with a copy of the uploaded image, every readable file
  decodes to a flat image, \<^verbatim>\<open>resize\<close> fails on an empty target size and otherwise
  returns a flat image of the requested size, the three other OpenCV steps are the
  identity, the similarity of two flat images falls by one eighth for every 32 grey
  levels between them (from 1 down to one eighth), the standard output accepts every
  text, and \<^verbatim>\<open>random.sample\<close> takes the first \<open>k\<close> files. \<open>demo_result\<close> is the record
  that the comparison of \<^verbatim>\<open>upload.png\<close> returns there.
\<close>

definition demo_env :: "nat env" where
  "demo_env =
     \<lparr>BASE_DATA_DIR = ''/app/data'',
      os_isdir = (\<lambda>d. d = ''/app/data/NORMAL'' \<or> d = ''/app/data/PNEUMONIA'' \<or>
                       d = ''/app/data/EXTRA''),
      os_listdir = (\<lambda>d. if d = ''/app/data/NORMAL'' then Inr [''n1.png'', ''notes.txt'']
                         else if d = ''/app/data/PNEUMONIA'' then Inr [''p1.JPG'']
                         else if d = ''/app/data/EXTRA'' then Inr [''e1.jpeg'']
                         else Inl OSError),
      print_stdout = (\<lambda>text. None),
      random_sample = (\<lambda>g xs k. (take k xs, Suc g)),
      cv2_imread = (\<lambda>p. if p = ''/app/data/NORMAL/n1.png'' then Inr (Some [[80]])
                         else if p = ''/app/data/PNEUMONIA/p1.JPG'' then Inr (Some [[200]])
                         else if p = ''/app/data/EXTRA/e1.jpeg'' then Inr (Some [[0]])
                         else if p = ''upload.png'' then Inr (Some [[0]])
                         else if p = ''tie.png'' then Inr (Some [[140]])
                         else Inr None),
      cv2_resize = (\<lambda>img (w, h). if w = 0 \<or> h = 0 then Inl Cv2Error
                                    else Inr (replicate h (replicate w (hd (hd img))))),
      cv2_normalize = Inr,
      clahe_apply = Inr,
      cv2_GaussianBlur = Inr,
      cv2_resize_f32 = (\<lambda>img (w, h). if w = 0 \<or> h = 0 then Inl Cv2Error
                                        else Inr (replicate h (replicate w (hd (hd img))))),
      skimage_ssim = (\<lambda>a b. Inr (1 - of_int (min 7 \<lfloor>\<bar>hd (hd a) - hd (hd b)\<bar> * 255 / 32\<rfloor>) / 8))\<rparr>"

definition demo_result :: comparison where
  "demo_result =
     \<lparr>best_match = Some \<lparr>category = Some ''NORMAL'', ssim = 3 / 4, mse_of = Finite (256 / 2601),
                          path = Some ''/app/data/NORMAL/n1.png''\<rparr>,
      summary = [''NORMAL'' \<mapsto> \<lparr>entry_avg_ssim = 3 / 4, entry_avg_mse = Some (256 / 2601),
                                  similarity_percent = 75, entry_samples_compared = 1\<rparr>,
                 ''PNEUMONIA'' \<mapsto> \<lparr>entry_avg_ssim = 1 / 4, entry_avg_mse = Some (1600 / 2601),
                                  similarity_percent = 25, entry_samples_compared = 1\<rparr>],
      confidence_diff = 1 / 2,
      prediction = Normal_Lungs\<rparr>"

text \<open>
  The same world with a similarity that is negative for dark reference images
  (\<^verbatim>\<open>structural_similarity\<close> ranges over negative values too).
\<close>

definition skew_env :: "nat env" where
  "skew_env = demo_env\<lparr>skimage_ssim := (\<lambda>a b. Inr (if hd (hd b) < 1 / 2 then - 1 / 2 else 1 / 4))\<rparr>"

text \<open>
  The same world with two similarities at the edge of the margin: \<open>edge_low\<close> for the
  dark reference image and \<open>edge_high\<close>, the double nearest to 2/100, for the bright
  one. Their exact difference is below 2/100; the difference the source computes is
  \<open>edge_high\<close> again, a quarter of the spacing of the doubles being lost in the rounding.
\<close>

definition edge_low :: real where
  "edge_low = 1 / 2 ^ 60"

definition edge_high :: real where
  "edge_high = 5764607523034235 / 2 ^ 58"

definition edge_env :: "nat env" where
  "edge_env = demo_env\<lparr>skimage_ssim :=
      (\<lambda>a b. Inr (if hd (hd b) < 1 / 2 then edge_low else edge_high))\<rparr>"


definition empty_env :: "nat env" where
  "empty_env = demo_env\<lparr>os_isdir := (\<lambda>d. False)\<rparr>"

text \<open>The record returned in the demo world for \<^verbatim>\<open>tie.png\<close>, equally similar to both references.\<close>

definition tie_result :: comparison where
  "tie_result =
     \<lparr>best_match = Some \<lparr>category = Some ''NORMAL'', ssim = 7 / 8, mse_of = Finite (16 / 289),
                          path = Some ''/app/data/NORMAL/n1.png''\<rparr>,
      summary = [''NORMAL'' \<mapsto> \<lparr>entry_avg_ssim = 7 / 8, entry_avg_mse = Some (16 / 289),
                                  similarity_percent = 50, entry_samples_compared = 1\<rparr>,
                 ''PNEUMONIA'' \<mapsto> \<lparr>entry_avg_ssim = 7 / 8, entry_avg_mse = Some (16 / 289),
                                  similarity_percent = 50, entry_samples_compared = 1\<rparr>],
      confidence_diff = 0,
      prediction = Uncertain_Result\<rparr>"

text \<open>
  A world that differs from the demo world outside the data directory only: one more
  directory and one more readable file.
\<close>

definition other_env :: "nat env" where
  "other_env =
     demo_env\<lparr>os_isdir := (\<lambda>d. d = ''/tmp'' \<or> os_isdir demo_env d),
              os_listdir := (\<lambda>d. if d = ''/tmp'' then Inr [''scan.png''] else os_listdir demo_env d),
              cv2_imread := (\<lambda>f. if f = ''/tmp/scan.png'' then Inr (Some [[7]]) else cv2_imread demo_env f)\<rparr>"


text \<open>
  The demo world with a standard output that encodes ASCII only, and with one more
  file in the \<^verbatim>\<open>NORMAL\<close> directory: its name \<open>accent_name\<close> starts with a letter outside
  ASCII (the two bytes of an accented e), its path is \<open>accent_path\<close>, and \<^verbatim>\<open>cv2.imread\<close>
  raises on it (as it does for an image above its limit of pixels).
\<close>

definition accent_name :: string where
  "accent_name = [CHR 0xC3, CHR 0xA9] @ ''.png''"

definition accent_path :: string where
  "accent_path = ''/app/data/NORMAL/'' @ accent_name"

definition ascii_text :: "string \<Rightarrow> bool" where
  "ascii_text text \<longleftrightarrow> list_all (\<lambda>c. (of_char c :: nat) < 128) text"

definition ascii_env :: "nat env" where
  "ascii_env =
     demo_env\<lparr>os_listdir := (\<lambda>d. if d = ''/app/data/NORMAL'' then Inr [''n1.png'', accent_name]
                                  else os_listdir demo_env d),
              print_stdout := (\<lambda>text. if ascii_text text then None else Some UnicodeEncodeError),
              cv2_imread := (\<lambda>p. if p = accent_path then Inl Cv2Error
                                  else cv2_imread demo_env p)\<rparr>"

text \<open>The same world with a standard output that accepts every text again.\<close>

definition quiet_env :: "nat env" where
  "quiet_env = ascii_env\<lparr>print_stdout := (\<lambda>text. None)\<rparr>"

text \<open>
  The demo world with a second, bright image in the \<^verbatim>\<open>NORMAL\<close> directory and a random
  source whose draw depends on its state: it takes the first \<open>k\<close> files of the
  population rotated by the number of draws made so far.
\<close>

definition rot_env :: "nat env" where
  "rot_env =
     demo_env\<lparr>os_listdir := (\<lambda>d. if d = ''/app/data/NORMAL'' then Inr [''n1.png'', ''n2.png'']
                                  else os_listdir demo_env d),
              random_sample := (\<lambda>g xs k. (take k (rotate g xs), Suc g)),
              cv2_imread := (\<lambda>p. if p = ''/app/data/NORMAL/n2.png'' then Inr (Some [[200]])
                                  else cv2_imread demo_env p)\<rparr>"

section \<open>Properties of the building blocks\<close>

subsection \<open>Preprocessing\<close>

lemma preprocess_image_Inl:
  assumes "preprocess_image env p = Inl e"
  shows "\<exists>e0. preprocess_body env p = Inl e0 \<and> print_stdout env (error_message p e0) = Some e"
  using assms by (auto simp: preprocess_image_def split: sum.splits option.splits)

lemma preprocess_image_not_Inl: "print_succeeds env \<Longrightarrow> preprocess_image env p \<noteq> Inl e"
  by (auto simp: print_succeeds_def dest: preprocess_image_Inl)

lemma preprocess_body_shape:
  assumes "cv2_contract env" and "preprocess_body env p = Inr (Some img)"
  shows "shape img = (512, 512)"
proof -
  from assms(2) obtain i0 i1 i2 i3 where
    r: "cv2_resize env i0 (512, 512) = Inr i1" and
    n: "cv2_normalize env i1 = Inr i2" and
    c: "clahe_apply env i2 = Inr i3" and
    b: "cv2_GaussianBlur env i3 = Inr img"
    by (auto simp: preprocess_body_def split: sum.splits option.splits)
  from assms(1) r have "shape i1 = (512, 512)"
    unfolding cv2_contract_def by blast
  moreover from assms(1) n have "shape i2 = shape i1"
    unfolding cv2_contract_def by blast
  moreover from assms(1) c have "shape i3 = shape i2"
    unfolding cv2_contract_def by blast
  moreover from assms(1) b have "shape img = shape i3"
    unfolding cv2_contract_def by blast
  ultimately show ?thesis by simp
qed

lemma preprocess_image_shape:
  assumes "cv2_contract env" and "preprocess_image env p = Inr (Some img)"
  shows "shape img = (512, 512)"
proof -
  from assms(2) have "preprocess_body env p = Inr (Some img)"
    by (simp add: preprocess_image_def split: sum.splits option.splits)
  with assms(1) show ?thesis by (rule preprocess_body_shape)
qed


subsection \<open>Rounding to double precision\<close>

text \<open>
  The rounding error of \<open>fl\<close> is at most half a quantum, hence at most the unit
  roundoff relative to a normal number; the values of \<open>fl\<close> are multiples of the
  smallest positive double, so that the sum of two doubles is rounded with a relative
  error of at most the unit roundoff even when it is subnormal; a number with at most
  53 significant bits is its own rounding.
\<close>

lemma round_half_even_error: "\<bar>of_int (round_half_even x) - x\<bar> \<le> 1 / 2"
  unfolding round_half_even_def Let_def by (auto; linarith)

lemma round_half_even_of_int [simp]: "round_half_even (of_int k) = k"
  by (simp add: round_half_even_def)

lemma round_half_even_nonneg: "0 \<le> x \<Longrightarrow> 0 \<le> round_half_even x"
  unfolding round_half_even_def Let_def by (auto; linarith)

lemma quantum_pos: "0 < quantum x"
  by (simp add: quantum_def)

lemma min_quantum_pos: "0 < min_quantum"
  by (simp add: min_quantum_def)

lemma unit_roundoff_pos: "0 < unit_roundoff"
  by (simp add: unit_roundoff_def)

lemma fl_zero [simp]: "fl 0 = 0"
  by (simp add: fl_def)

lemma fl_half_quantum: "\<bar>fl x - x\<bar> \<le> quantum x / 2"
proof (cases "x = 0")
  case True
  then show ?thesis using quantum_pos [of x] by simp
next
  case False
  let ?q = "quantum x"
  let ?r = "real_of_int (round_half_even (x / ?q))"
  have "\<bar>?r - x / ?q\<bar> \<le> 1 / 2"
    by (rule round_half_even_error)
  then have "\<bar>?r - x / ?q\<bar> * ?q \<le> 1 / 2 * ?q"
    using quantum_pos [of x] by (simp only: mult_le_cancel_right_pos)
  moreover have "\<bar>?r - x / ?q\<bar> * ?q = \<bar>?r * ?q - x\<bar>"
  proof -
    have "(?r - x / ?q) * ?q = ?r * ?q - x"
      using quantum_pos [of x] by (simp add: left_diff_distrib)
    then have "\<bar>?r * ?q - x\<bar> = \<bar>?r - x / ?q\<bar> * \<bar>?q\<bar>"
      by (simp only: abs_mult [symmetric])
    with quantum_pos [of x] show ?thesis by simp
  qed
  ultimately show ?thesis using False by (simp add: fl_def)
qed

lemma binade_min: "- 1022 \<le> binade x"
  by (simp add: binade_def)

lemma binade_normal:
  assumes "min_normal \<le> \<bar>x\<bar>"
  shows "2 powr of_int (binade x) \<le> \<bar>x\<bar>"
proof -
  have pos: "0 < \<bar>x\<bar>" using assms by (smt (verit) min_normal_def powr_gt_zero)
  from assms have "- 1022 \<le> log 2 \<bar>x\<bar>" using pos by (simp add: le_log_iff min_normal_def)
  then have "(- 1022 :: int) \<le> \<lfloor>log 2 \<bar>x\<bar>\<rfloor>" by (simp add: le_floor_iff)
  then have "binade x = \<lfloor>log 2 \<bar>x\<bar>\<rfloor>" by (simp add: binade_def)
  moreover have "2 powr of_int \<lfloor>log 2 \<bar>x\<bar>\<rfloor> \<le> \<bar>x\<bar>"
    using pos by (subst le_log_iff [symmetric]) simp_all
  ultimately show ?thesis by simp
qed

lemma half_quantum: "quantum x / 2 = 2 powr of_int (binade x) * unit_roundoff"
proof -
  have "of_int (binade x - 52) = of_int (binade x) + (- 53) + (1::real)" by simp
  then have "quantum x = 2 powr of_int (binade x) * 2 powr (- 53) * 2 powr 1"
    unfolding quantum_def by (simp only: powr_add)
  then show ?thesis by (simp add: unit_roundoff_def)
qed

lemma fl_error_normal:
  assumes "min_normal \<le> \<bar>x\<bar>"
  shows "\<bar>fl x - x\<bar> \<le> \<bar>x\<bar> * unit_roundoff"
proof -
  have "\<bar>fl x - x\<bar> \<le> quantum x / 2" by (rule fl_half_quantum)
  also have "\<dots> = 2 powr of_int (binade x) * unit_roundoff" by (rule half_quantum)
  also have "\<dots> \<le> \<bar>x\<bar> * unit_roundoff"
    using binade_normal [OF assms] unit_roundoff_pos by (simp only: mult_le_cancel_right_pos)
  finally show ?thesis .
qed

lemma quantum_subnormal:
  assumes "\<bar>x\<bar> < min_normal" and "x \<noteq> 0"
  shows "quantum x = min_quantum"
proof -
  have pos: "0 < \<bar>x\<bar>" using assms(2) by simp
  from assms(1) have "log 2 \<bar>x\<bar> < - 1022" using pos by (simp add: log_less_iff min_normal_def)
  then have "\<lfloor>log 2 \<bar>x\<bar>\<rfloor> < - 1022" by (simp add: floor_less_iff)
  then have "binade x = - 1022" by (simp add: binade_def)
  then show ?thesis by (simp add: quantum_def min_quantum_def)
qed

lemma fl_error: "\<bar>fl x - x\<bar> \<le> \<bar>x\<bar> * unit_roundoff + min_quantum / 2"
proof (cases "min_normal \<le> \<bar>x\<bar>")
  case True
  from fl_error_normal [OF this] min_quantum_pos show ?thesis by linarith
next
  case False
  have nn: "0 \<le> \<bar>x\<bar> * unit_roundoff" using unit_roundoff_pos by simp
  show ?thesis
  proof (cases "x = 0")
    case True
    then show ?thesis using min_quantum_pos by simp
  next
    case nz: False
    from False have small: "\<bar>x\<bar> < min_normal" by simp
    have "\<bar>fl x - x\<bar> \<le> quantum x / 2" by (rule fl_half_quantum)
    also have "\<dots> = min_quantum / 2" by (simp only: quantum_subnormal [OF small nz])
    finally show ?thesis using nn by linarith
  qed
qed

lemma fl_error_bound:
  assumes "\<bar>x\<bar> \<le> B"
  shows "\<bar>fl x - x\<bar> \<le> B * unit_roundoff + min_quantum / 2"
proof -
  have "\<bar>x\<bar> * unit_roundoff \<le> B * unit_roundoff"
    using assms unit_roundoff_pos by (simp only: mult_le_cancel_right_pos)
  with fl_error [of x] show ?thesis by linarith
qed

lemma fl_nonneg: "0 \<le> x \<Longrightarrow> 0 \<le> fl x"
  using quantum_pos [of x] by (simp add: fl_def round_half_even_nonneg)

lemma quantum_grid: "\<exists>j::nat. quantum x = of_int (2 ^ j) * min_quantum"
proof -
  have "0 \<le> binade x + 1022" using binade_min [of x] by simp
  then obtain j :: nat where j: "binade x + 1022 = int j" using nonneg_int_cases by blast
  have "of_int (binade x - 52) = of_int (binade x + 1022) + (- 1074 :: real)" by simp
  then have "quantum x = 2 powr (of_int (binade x + 1022)) * 2 powr (- 1074)"
    unfolding quantum_def by (simp only: powr_add)
  also have "(2::real) powr (of_int (binade x + 1022)) = 2 ^ j"
    unfolding j by (simp add: powr_realpow)
  finally have "quantum x = of_int (2 ^ j) * min_quantum" by (simp add: min_quantum_def)
  then show ?thesis by blast
qed

lemma fl_grid: "\<exists>k::int. fl x = of_int k * min_quantum"
proof (cases "x = 0")
  case True
  then have "fl x = of_int 0 * min_quantum" by simp
  then show ?thesis by blast
next
  case False
  from quantum_grid [of x] obtain j :: nat where j: "quantum x = of_int (2 ^ j) * min_quantum" ..
  have "fl x = of_int (round_half_even (x / quantum x)) * (of_int (2 ^ j) * min_quantum)"
    using False by (simp only: fl_def if_False j [symmetric])
  also have "\<dots> = of_int (round_half_even (x / quantum x) * 2 ^ j) * min_quantum"
    by (simp only: of_int_mult mult.assoc)
  finally show ?thesis by blast
qed

lemma fl_exact_subnormal:
  assumes "\<bar>of_int k * min_quantum\<bar> < min_normal"
  shows "fl (of_int k * min_quantum) = of_int k * min_quantum"
proof (cases "k = 0")
  case True
  then show ?thesis by simp
next
  case False
  let ?x = "of_int k * min_quantum"
  from False min_quantum_pos have nz: "?x \<noteq> 0" by simp
  have q: "quantum ?x = min_quantum" by (rule quantum_subnormal [OF assms nz])
  have "?x / quantum ?x = of_int k" using min_quantum_pos by (simp add: q)
  then have "fl ?x = of_int k * quantum ?x"
    using nz by (simp only: fl_def if_False round_half_even_of_int)
  then show ?thesis by (simp only: q)
qed

lemma fl_add_doubles:
  assumes "a \<in> range fl" and "b \<in> range fl"
  shows "\<bar>fl (a + b) - (a + b)\<bar> \<le> \<bar>a + b\<bar> * unit_roundoff"
proof (cases "min_normal \<le> \<bar>a + b\<bar>")
  case True
  then show ?thesis by (rule fl_error_normal)
next
  case False
  from assms fl_grid obtain k1 k2 :: int where
    "a = of_int k1 * min_quantum" "b = of_int k2 * min_quantum" by (metis imageE)
  then have s: "a + b = of_int (k1 + k2) * min_quantum" by (simp add: distrib_right)
  from False have "\<bar>of_int (k1 + k2) * min_quantum\<bar> < min_normal"
    by (simp only: s [symmetric] not_le)
  from fl_exact_subnormal [OF this] have "fl (a + b) = a + b" by (simp only: s)
  then show ?thesis using unit_roundoff_pos by simp
qed

lemma fl_dyadic:
  assumes "\<bar>m\<bar> < 2 ^ 53" and "k \<le> 1074"
  shows "fl (of_int m / 2 ^ k) = of_int m / 2 ^ k"
proof (cases "m = 0")
  case True
  then show ?thesis by simp
next
  case False
  let ?x = "of_int m / 2 ^ k :: real"
  from False have nz: "?x \<noteq> 0" by simp
  then have pos: "0 < \<bar>?x\<bar>" by simp
  have k: "(2::real) ^ k = 2 powr of_nat k" by (simp add: powr_realpow)
  have "\<bar>real_of_int m\<bar> < 2 ^ 53"
    using assms(1) by (metis of_int_abs of_int_less_numeral_power_cancel_iff)
  then have "\<bar>?x\<bar> < 2 ^ 53 / 2 ^ k" by (simp add: abs_divide divide_strict_right_mono)
  also have "(2::real) ^ 53 = 2 powr 53" by (simp add: powr_realpow [symmetric])
  also have "2 powr 53 / (2::real) ^ k = 2 powr (53 - of_nat k)"
    by (simp only: k powr_diff)
  finally have "log 2 \<bar>?x\<bar> < 53 - of_nat k" using pos by (simp add: log_less_iff)
  then have "\<lfloor>log 2 \<bar>?x\<bar>\<rfloor> < 53 - int k" by (simp add: floor_less_iff)
  with assms(2) have e: "binade ?x \<le> 52 - int k" by (simp add: binade_def)
  then obtain j :: nat where j: "52 - int k - binade ?x = int j"
    using nonneg_int_cases [of "52 - int k - binade ?x"] by auto
  have q: "quantum ?x * (2 ^ k * 2 ^ j) = 1"
  proof -
    have "binade ?x - 52 = - (int k + int j)" using j by simp
    then have "quantum ?x = 2 powr (- (of_nat k + of_nat j))"
      by (simp add: quantum_def)
    moreover have "(2::real) ^ k * 2 ^ j = 2 powr (of_nat k + of_nat j)"
      by (simp only: powr_add powr_realpow zero_less_numeral)
    ultimately have "quantum ?x * (2 ^ k * 2 ^ j) = 2 powr (- (of_nat k + of_nat j) + (of_nat k + of_nat j))"
      by (simp only: powr_add)
    then show ?thesis by simp
  qed
  have "?x / quantum ?x = of_int m * 2 ^ j"
  proof -
    have "?x = of_int m * 2 ^ j * quantum ?x"
    proof -
      have "of_int m * 2 ^ j * quantum ?x * 2 ^ k = of_int m * (quantum ?x * (2 ^ k * 2 ^ j))"
        by (simp only: mult_ac)
      also have "\<dots> = of_int m" by (simp only: q mult_1_right)
      finally show ?thesis by (simp add: field_simps)
    qed
    then show ?thesis using quantum_pos [of ?x] by (simp add: field_simps)
  qed
  then have r: "?x / quantum ?x = of_int (m * 2 ^ j)" by simp
  have "fl ?x = of_int (m * 2 ^ j) * quantum ?x"
    using nz by (simp only: fl_def r round_half_even_of_int if_False)
  also have "\<dots> = ?x / quantum ?x * quantum ?x" by (simp only: r)
  also have "\<dots> = ?x" using quantum_pos [of ?x] by simp
  finally show ?thesis .
qed

lemma binade_between:
  assumes "2 powr of_int j \<le> \<bar>x\<bar>" and "\<bar>x\<bar> < 2 powr of_int (j + 1)" and "- 1022 \<le> j"
  shows "binade x = j"
proof -
  have pos: "0 < \<bar>x\<bar>" using assms(1) by (smt (verit) powr_gt_zero)
  from assms(1) pos have "of_int j \<le> log 2 \<bar>x\<bar>" by (simp add: le_log_iff)
  moreover from assms(2) pos have "log 2 \<bar>x\<bar> < of_int j + 1" by (simp add: log_less_iff)
  ultimately have "\<lfloor>log 2 \<bar>x\<bar>\<rfloor> = j" by linarith
  with assms(3) show ?thesis by (simp add: binade_def)
qed

lemma fl_below_one:
  assumes "1 / 2 ^ n \<le> \<bar>x\<bar>" and "\<bar>x\<bar> < 2 / 2 ^ n" and "n \<le> 1022"
  shows "fl x = of_int (round_half_even (x * 2 ^ (n + 52))) / 2 ^ (n + 52)"
proof -
  have a: "(2::real) powr of_int (- int n) = 1 / 2 ^ n"
    by (simp add: powr_minus_divide powr_realpow)
  have "(2::real) powr of_int (- int n + 1) = 2 powr (- of_nat n) * 2 powr 1"
    by (simp only: of_int_add of_int_minus of_int_of_nat_eq of_int_1 powr_add)
  then have b: "(2::real) powr of_int (- int n + 1) = 2 / 2 ^ n"
    by (simp add: powr_minus_divide powr_realpow)
  have e: "binade x = - int n"
  proof (rule binade_between)
    show "2 powr of_int (- int n) \<le> \<bar>x\<bar>" using assms(1) by (simp only: a)
    show "\<bar>x\<bar> < 2 powr of_int (- int n + 1)" using assms(2) by (simp only: b)
    show "- 1022 \<le> - int n" using assms(3) by simp
  qed
  have q: "quantum x = 1 / 2 ^ (n + 52)"
  proof -
    have "of_int (binade x - 52) = - real (n + 52)" by (simp add: e)
    then have "quantum x = 2 powr (- real (n + 52))" by (simp only: quantum_def)
    then show ?thesis by (simp only: powr_minus_divide powr_realpow zero_less_numeral)
  qed
  have nz: "x \<noteq> 0" using assms(1) by (smt (verit) divide_pos_pos zero_less_power abs_zero zero_less_numeral)
  then show ?thesis by (simp add: fl_def q)
qed

subsection \<open>The percentages of two non-negative scores\<close>

lemma unit_roundoff_small: "unit_roundoff \<le> 1 / 1000000000000000"
proof -
  have "unit_roundoff = 1 / 2 ^ 53"
    by (simp add: unit_roundoff_def powr_minus_divide)
  then show ?thesis by simp
qed

lemma min_quantum_small: "min_quantum \<le> unit_roundoff"
  unfolding min_quantum_def unit_roundoff_def by (rule powr_mono) simp_all

lemma fl_close:
  assumes "\<bar>x\<bar> \<le> B"
  shows "fl x - x \<le> (B + 1) * unit_roundoff" and "x - fl x \<le> (B + 1) * unit_roundoff"
proof -
  from fl_error_bound [OF assms] have "\<bar>fl x - x\<bar> \<le> B * unit_roundoff + min_quantum / 2" .
  moreover have "min_quantum / 2 \<le> unit_roundoff"
    using min_quantum_small min_quantum_pos by linarith
  ultimately have "\<bar>fl x - x\<bar> \<le> (B + 1) * unit_roundoff" by (simp add: distrib_right)
  then show "fl x - x \<le> (B + 1) * unit_roundoff" and "x - fl x \<le> (B + 1) * unit_roundoff"
    by linarith+
qed

lemma py_round_close:
  assumes "0 \<le> x" and "x \<le> 201"
  shows "py_round x 2 - x \<le> 1 / 200 + 203 * unit_roundoff"
    and "x - py_round x 2 \<le> 1 / 200 + 203 * unit_roundoff"
proof -
  let ?k = "real_of_int (round_half_even (x * 100))"
  have "\<bar>?k - x * 100\<bar> \<le> 1 / 2" by (rule round_half_even_error)
  then have k: "?k / 100 - x \<le> 1 / 200" "x - ?k / 100 \<le> 1 / 200" by linarith+
  have "0 \<le> round_half_even (x * 100)" using assms(1) by (intro round_half_even_nonneg) simp
  then have "0 \<le> ?k" by simp
  with k assms(2) have "\<bar>?k / 100\<bar> \<le> 202" by simp
  from fl_close [OF this] have "fl (?k / 100) - ?k / 100 \<le> 203 * unit_roundoff"
    and "?k / 100 - fl (?k / 100) \<le> 203 * unit_roundoff" by simp_all
  with k show "py_round x 2 - x \<le> 1 / 200 + 203 * unit_roundoff"
    and "x - py_round x 2 \<le> 1 / 200 + 203 * unit_roundoff"
    by (simp_all add: py_round_def)
qed

lemma share_close:
  assumes "0 \<le> x" and "x \<le> 2"
  shows "0 \<le> fl (fl x * 100)" and "fl (fl x * 100) \<le> 201"
    and "fl (fl x * 100) - 100 * x \<le> 601 * unit_roundoff"
    and "100 * x - fl (fl x * 100) \<le> 601 * unit_roundoff"
proof -
  note u = unit_roundoff_pos unit_roundoff_small
  from assms have "\<bar>x\<bar> \<le> 2" by simp
  from fl_close [OF this] have q: "fl x - x \<le> 3 * unit_roundoff" "x - fl x \<le> 3 * unit_roundoff"
    by simp_all
  have q0: "0 \<le> fl x" using assms(1) by (rule fl_nonneg)
  from q u assms have "fl x \<le> 3" by linarith
  with q0 have "\<bar>fl x * 100\<bar> \<le> 300" by simp
  from fl_close [OF this] have p: "fl (fl x * 100) - fl x * 100 \<le> 301 * unit_roundoff"
    "fl x * 100 - fl (fl x * 100) \<le> 301 * unit_roundoff" by simp_all
  show "0 \<le> fl (fl x * 100)" using q0 by (intro fl_nonneg) simp
  from p q show "fl (fl x * 100) - 100 * x \<le> 601 * unit_roundoff"
    and "100 * x - fl (fl x * 100) \<le> 601 * unit_roundoff" by linarith+
  with u assms show "fl (fl x * 100) \<le> 201" by linarith
qed

lemma total_close:
  assumes "a \<in> range fl" and "b \<in> range fl" and "0 \<le> a" and "0 \<le> b" and "a \<noteq> 0 \<or> b \<noteq> 0"
  shows "0 < fl (a + b)" and "a / fl (a + b) \<le> 2" and "b / fl (a + b) \<le> 2"
    and "(a + b) / fl (a + b) - 1 \<le> 2 * unit_roundoff"
    and "1 - (a + b) / fl (a + b) \<le> 2 * unit_roundoff"
proof -
  note u = unit_roundoff_pos unit_roundoff_small
  let ?s = "a + b" and ?t = "fl (a + b)"
  from assms(3-5) have s: "0 < ?s" by linarith
  define w where "w = ?s * unit_roundoff"
  from fl_add_doubles [OF assms(1,2)] s have e: "\<bar>?t - ?s\<bar> \<le> w" by (simp add: w_def)
  have "?s * unit_roundoff \<le> ?s * (1 / 2)"
    using s u by (intro mult_left_mono) simp_all
  then have "w \<le> ?s / 2" by (simp add: w_def)
  moreover from e have "?s - ?t \<le> w" by (simp add: abs_le_iff)
  ultimately have half: "?s \<le> 2 * ?t" by (simp add: field_simps)
  with s show t: "0 < ?t" by linarith
  have "?s * unit_roundoff \<le> 2 * ?t * unit_roundoff"
    using half u(1) by (simp only: mult_le_cancel_right_pos)
  then have "w \<le> 2 * unit_roundoff * ?t" by (simp add: w_def mult_ac)
  with e have d: "\<bar>?s - ?t\<bar> \<le> 2 * unit_roundoff * ?t" by linarith
  have "?s / ?t - 1 = (?s - ?t) / ?t" using t by (simp add: diff_divide_distrib)
  then have "\<bar>?s / ?t - 1\<bar> = \<bar>?s - ?t\<bar> / ?t" using t by (simp add: abs_divide)
  also have "\<dots> \<le> 2 * unit_roundoff" using d t by (simp add: pos_divide_le_eq)
  finally have r: "\<bar>?s / ?t - 1\<bar> \<le> 2 * unit_roundoff" .
  then show "?s / ?t - 1 \<le> 2 * unit_roundoff" and "1 - ?s / ?t \<le> 2 * unit_roundoff"
    by linarith+
  from r u have st: "?s / ?t \<le> 2" by linarith
  have "a / ?t \<le> ?s / ?t" using assms(4) t by (simp add: divide_right_mono)
  with st show "a / ?t \<le> 2" by linarith
  have "b / ?t \<le> ?s / ?t" using assms(3) t by (simp add: divide_right_mono)
  with st show "b / ?t \<le> 2" by linarith
qed

lemma percent_sum:
  assumes "a \<in> range fl" and "b \<in> range fl" and "0 \<le> a" and "0 \<le> b" and "a \<noteq> 0 \<or> b \<noteq> 0"
  shows "\<bar>py_round (fl (fl (a / fl (a + b)) * 100)) 2
          + py_round (fl (fl (b / fl (a + b)) * 100)) 2 - 100\<bar> \<le> 1 / 100 + 1 / 10 ^ 9"
proof -
  note u = unit_roundoff_pos unit_roundoff_small
  let ?t = "fl (a + b)"
  note tc = total_close [OF assms]
  have xa: "0 \<le> a / ?t" using assms(3) tc(1) by simp
  have xb: "0 \<le> b / ?t" using assms(4) tc(1) by simp
  note pa = share_close [OF xa tc(2)]
  note pb = share_close [OF xb tc(3)]
  note ra = py_round_close [OF pa(1,2)]
  note rb = py_round_close [OF pb(1,2)]
  have split: "100 * (a / ?t) + 100 * (b / ?t) = 100 * ((a + b) / ?t)"
    by (simp add: add_divide_distrib)
  let ?R = "py_round (fl (fl (a / ?t) * 100)) 2 + py_round (fl (fl (b / ?t) * 100)) 2"
  from ra rb pa(3,4) pb(3,4) tc(4,5) split
  have "?R - 100 \<le> 1 / 100 + 1808 * unit_roundoff" and "100 - ?R \<le> 1 / 100 + 1808 * unit_roundoff"
    by linarith+
  moreover have "1808 * unit_roundoff \<le> 1 / 1000000000" using u by linarith
  ultimately have "\<bar>?R - 100\<bar> \<le> 1 / 100 + 1 / 1000000000" by linarith
  then show ?thesis by simp
qed

subsection \<open>The loops and the samples they score\<close>

lemma scored_Nil [simp]: "scored env up cat [] = []"
  by (simp add: scored_def)

lemma scored_Cons:
  "scored env up cat (p # ps) =
     (case compare_sample env up p of Inr (Some (s, m)) \<Rightarrow> [(cat, p, s, m)] | _ \<Rightarrow> [])
     @ scored env up cat ps"
  by (simp add: scored_def)

lemma sample_loop_scored:
  "sample_loop env up cat ps (ss, ms, bm) = Inr (ss', ms', bm') \<Longrightarrow>
     ss' = ss @ map (\<lambda>x. fst (snd (snd x))) (scored env up cat ps) \<and>
     ms' = ms @ map (\<lambda>x. snd (snd (snd x))) (scored env up cat ps) \<and>
     bm' = foldl track bm (scored env up cat ps)"
proof (induction ps arbitrary: ss ms bm)
  case Nil
  then show ?case by simp
next
  case (Cons p ps)
  show ?case
  proof (cases "compare_sample env up p")
    case (Inl e)
    with Cons.prems show ?thesis by simp
  next
    case (Inr r)
    show ?thesis
    proof (cases r)
      case None
      with Inr Cons.prems Cons.IH [of ss ms bm] show ?thesis
        by (simp add: scored_Cons)
    next
      case (Some sm)
      obtain s m where sm: "sm = (s, m)" by (cases sm)
      from Cons.prems Inr Some sm
      have "sample_loop env up cat ps (ss @ [s], ms @ [m], track bm (cat, p, s, m)) = Inr (ss', ms', bm')"
        by (simp add: track_def)
      from Cons.IH [OF this] Inr Some sm show ?thesis
        by (simp add: scored_Cons)
    qed
  qed
qed

lemma process_category_cases:
  "process_category env up n cat (rs, bm, g) =
     (if \<not> os_isdir env (path_join (BASE_DATA_DIR env) cat)
      then Inr (rs(cat \<mapsto> no_samples), bm, g)
      else
        (case os_listdir env (path_join (BASE_DATA_DIR env) cat) of
           Inl e \<Rightarrow> Inl e
         | Inr names \<Rightarrow>
             if eligible_files env cat = [] then Inr (rs(cat \<mapsto> no_samples), bm, g)
             else if min n (int (length (eligible_files env cat))) < 0 then Inl ValueError
             else
               (case random_sample env g (eligible_files env cat)
                       (nat (min n (int (length (eligible_files env cat))))) of
                  (sampled, g') \<Rightarrow>
                    (case sample_loop env up cat sampled ([], [], bm) of
                       Inl e \<Rightarrow> Inl e
                     | Inr (ssim_scores, mse_scores, bm') \<Rightarrow>
                         Inr (rs(cat \<mapsto>
                                \<lparr>avg_ssim = (if ssim_scores \<noteq> [] then Some (median ssim_scores) else None),
                                 avg_mse = (if mse_scores \<noteq> [] then Some (median mse_scores) else None),
                                 samples_compared = length ssim_scores\<rparr>),
                              bm', g')))))"
  unfolding process_category_def eligible_files_def Let_def prod.case
  by (cases "os_listdir env (path_join (BASE_DATA_DIR env) cat)") (simp_all only: sum.case)

lemma process_category_best:
  assumes "process_category env up n cat (rs, bm, g) = Inr (rs', bm', g')"
  shows "bm' = foldl track bm (scored env up cat (fst (draw env n cat g))) \<and> g' = snd (draw env n cat g)"
proof (cases "\<not> os_isdir env (path_join (BASE_DATA_DIR env) cat) \<or> eligible_files env cat = []")
  case True
  with assms show ?thesis
    by (auto simp: process_category_cases draw_def Let_def split: if_splits sum.splits)
next
  case False
  obtain ps g1 where rs: "random_sample env g (eligible_files env cat)
        (nat (min n (int (length (eligible_files env cat))))) = (ps, g1)"
    by (cases "random_sample env g (eligible_files env cat)
        (nat (min n (int (length (eligible_files env cat)))))")
  from False rs have d: "draw env n cat g = (ps, g1)" by (simp add: draw_def)
  from assms False rs obtain ss ms where
    "sample_loop env up cat ps ([], [], bm) = Inr (ss, ms, bm')" and "g' = g1"
    by (auto simp: process_category_cases Let_def split: if_splits sum.splits)
  with sample_loop_scored [of env up cat ps "[]" "[]" bm ss ms bm'] d show ?thesis
    by simp
qed

lemma category_loop_best:
  "category_loop env up n cats (rs, bm, g) = Inr (rs', bm', g') \<Longrightarrow>
     bm' = foldl track bm (run_scored env up n cats g)"
proof (induction cats arbitrary: rs bm g)
  case Nil
  then show ?case by simp
next
  case (Cons c cs)
  from Cons.prems obtain rs1 bm1 g1 where
    step: "process_category env up n c (rs, bm, g) = Inr (rs1, bm1, g1)" and
    rest: "category_loop env up n cs (rs1, bm1, g1) = Inr (rs', bm', g')"
    by (auto split: sum.splits)
  from process_category_best [OF step] Cons.IH [OF rest] show ?case
    by (simp add: case_prod_unfold)
qed

subsection \<open>The best-match tracker\<close>

lemma track_alt: "track bm x = (if ssim bm < similarity x then as_best x else bm)"
  by (cases x) (simp add: track_def similarity_def as_best_def)

lemma ssim_as_best [simp]: "ssim (as_best x) = similarity x"
  by (cases x) (simp add: similarity_def as_best_def)

lemma foldl_track_mono: "ssim bm \<le> ssim (foldl track bm xs)"
proof (induction xs arbitrary: bm)
  case Nil
  show ?case by simp
next
  case (Cons x xs)
  have "ssim bm \<le> ssim (track bm x)" by (simp add: track_alt)
  also have "\<dots> \<le> ssim (foldl track (track bm x) xs)" by (rule Cons.IH)
  finally show ?case by simp
qed

lemma foldl_track_upper: "x \<in> set xs \<Longrightarrow> similarity x \<le> ssim (foldl track bm xs)"
proof (induction xs arbitrary: bm)
  case Nil
  then show ?case by simp
next
  case (Cons y ys)
  show ?case
  proof (cases "x = y")
    case True
    have "similarity y \<le> ssim (track bm y)" by (simp add: track_alt)
    also have "\<dots> \<le> ssim (foldl track (track bm y) ys)" by (rule foldl_track_mono)
    finally show ?thesis using True by simp
  next
    case False
    with Cons.prems have "x \<in> set ys" by simp
    from Cons.IH [OF this] show ?thesis by simp
  qed
qed

lemma foldl_track_first:
  "foldl track bm xs = bm \<or>
   (\<exists>i < length xs. foldl track bm xs = as_best (xs ! i) \<and> ssim bm < similarity (xs ! i) \<and>
      (\<forall>j < i. similarity (xs ! j) < similarity (xs ! i)))"
proof (induction xs arbitrary: bm)
  case Nil
  show ?case by simp
next
  case (Cons x xs)
  let ?b = "track bm x"
  let ?f = "foldl track ?b xs"
  from Cons.IH [of ?b] consider
    (same) "?f = ?b" |
    (later) i where "i < length xs" "?f = as_best (xs ! i)" "ssim ?b < similarity (xs ! i)"
      "\<forall>j < i. similarity (xs ! j) < similarity (xs ! i)"
    by blast
  then show ?case
  proof cases
    case same
    show ?thesis
    proof (cases "ssim bm < similarity x")
      case True
      then have "?b = as_best x" by (simp add: track_alt)
      with same have "foldl track bm (x # xs) = as_best ((x # xs) ! 0)" by simp
      with True show ?thesis by auto
    next
      case False
      then have "?b = bm" by (simp add: track_alt)
      with same have "foldl track bm (x # xs) = bm" by simp
      then show ?thesis by blast
    qed
  next
    case later
    have b: "ssim bm \<le> ssim ?b" "similarity x \<le> ssim ?b" by (simp_all add: track_alt)
    have "\<forall>j < Suc i. similarity ((x # xs) ! j) < similarity ((x # xs) ! Suc i)"
    proof (intro allI impI)
      fix j assume "j < Suc i"
      show "similarity ((x # xs) ! j) < similarity ((x # xs) ! Suc i)"
      proof (cases j)
        case 0
        with b(2) later(3) show ?thesis by simp
      next
        case (Suc k)
        with \<open>j < Suc i\<close> later(4) show ?thesis by simp
      qed
    qed
    moreover have "foldl track bm (x # xs) = as_best ((x # xs) ! Suc i)"
      using later(2) by simp
    moreover have "ssim bm < similarity ((x # xs) ! Suc i)"
      using b(1) later(3) by simp
    moreover have "Suc i < length (x # xs)" using later(1) by simp
    ultimately show ?thesis by blast
  qed
qed

subsection \<open>The dictionary of results\<close>

lemma process_category_Inr:
  assumes "process_category env up n cat (rs, bm, g) = Inr st'"
  shows "st' = (rs(cat \<mapsto> summarize (scored env up cat (fst (draw env n cat g)))),
               foldl track bm (scored env up cat (fst (draw env n cat g))),
               snd (draw env n cat g))"
proof (cases "\<not> os_isdir env (path_join (BASE_DATA_DIR env) cat) \<or> eligible_files env cat = []")
  case True
  with assms show ?thesis
    by (auto simp: process_category_cases draw_def Let_def summarize_def no_samples_def
        split: if_splits sum.splits)
next
  case False
  obtain ps g1 where rs: "random_sample env g (eligible_files env cat)
        (nat (min n (int (length (eligible_files env cat))))) = (ps, g1)"
    by (cases "random_sample env g (eligible_files env cat)
        (nat (min n (int (length (eligible_files env cat)))))")
  from False rs have d: "draw env n cat g = (ps, g1)" by (simp add: draw_def)
  from assms False rs obtain ss ms bm' where
    loop: "sample_loop env up cat ps ([], [], bm) = Inr (ss, ms, bm')" and
    st: "st' = (rs(cat \<mapsto> \<lparr>avg_ssim = (if ss \<noteq> [] then Some (median ss) else None),
                              avg_mse = (if ms \<noteq> [] then Some (median ms) else None),
                              samples_compared = length ss\<rparr>), bm', g1)"
    by (auto simp: process_category_cases Let_def split: if_splits sum.splits)
  from sample_loop_scored [OF loop] have
    "ss = map similarity (scored env up cat ps)" "ms = map error_of (scored env up cat ps)"
    "bm' = foldl track bm (scored env up cat ps)"
    by (simp_all add: similarity_def error_of_def)
  with st d show ?thesis by (simp add: summarize_def)
qed

lemma category_loop_entries:
  assumes "category_loop env up n cats (rs, bm, g) = Inr (rs', bm', g')" and "rs' c = Some e"
  shows "rs c = Some e \<or>
         (c \<in> set cats \<and> (\<exists>g0. e = summarize (scored env up c (fst (draw env n c g0)))))"
  using assms
proof (induction cats arbitrary: rs bm g)
  case Nil
  then show ?case by simp
next
  case (Cons a cats)
  from Cons.prems(1) obtain st1 where
    step: "process_category env up n a (rs, bm, g) = Inr st1" and
    rest: "category_loop env up n cats st1 = Inr (rs', bm', g')"
    by (auto split: sum.splits)
  note st1 = process_category_Inr [OF step]
  from Cons.IH [OF rest [unfolded st1] Cons.prems(2)] show ?case
    by (auto split: if_splits)
qed

lemma category_loop_untouched:
  "category_loop env up n cats (rs, bm, g) = Inr (rs', bm', g') \<Longrightarrow> c \<notin> set cats \<Longrightarrow> rs' c = rs c"
proof (induction cats arbitrary: rs bm g)
  case Nil
  then show ?case by simp
next
  case (Cons a cats)
  from Cons.prems(1) obtain st1 where
    step: "process_category env up n a (rs, bm, g) = Inr st1" and
    rest: "category_loop env up n cats st1 = Inr (rs', bm', g')"
    by (auto split: sum.splits)
  note st1 = process_category_Inr [OF step]
  from Cons.IH [OF rest [unfolded st1]] Cons.prems(2) show ?case
    by simp
qed

lemma category_loop_written:
  "category_loop env up n cats (rs, bm, g) = Inr (rs', bm', g') \<Longrightarrow> c \<in> set cats \<Longrightarrow>
     \<exists>g0. rs' c = Some (summarize (scored env up c (fst (draw env n c g0))))"
proof (induction cats arbitrary: rs bm g)
  case Nil
  then show ?case by simp
next
  case (Cons a cats)
  from Cons.prems(1) obtain st1 where
    step: "process_category env up n a (rs, bm, g) = Inr st1" and
    rest: "category_loop env up n cats st1 = Inr (rs', bm', g')"
    by (auto split: sum.splits)
  note st1 = process_category_Inr [OF step]
  show ?case
  proof (cases "c \<in> set cats")
    case True
    from Cons.IH [OF rest [unfolded st1] True] show ?thesis .
  next
    case False
    with Cons.prems(2) have "c = a" by simp
    with category_loop_untouched [OF rest [unfolded st1] False] show ?thesis by auto
  qed
qed

subsection \<open>The returned record\<close>

lemma compare_Inr:
  assumes "compare_with_dataset env g p n cats = Inr r"
  obtains up8 results bm g' where
    "preprocess_image env p = Inr (Some up8)"
    "category_loop env (to_float up8) n cats (Map.empty, initial_best, g) = Inr (results, bm, g')"
    "r = build_result results bm"
  using assms
  by (auto simp: compare_with_dataset_def split: sum.splits option.splits)

lemma summary_build_result:
  "summary (build_result rs bm) ''NORMAL'' =
     Some \<lparr>entry_avg_ssim = score_of rs ''NORMAL'',
           entry_avg_mse = avg_mse_of rs ''NORMAL'',
           similarity_percent = py_round (float_mul (float_div (score_of rs ''NORMAL'')
              (if 0 < float_add (score_of rs ''NORMAL'') (score_of rs ''PNEUMONIA'')
               then float_add (score_of rs ''NORMAL'') (score_of rs ''PNEUMONIA'') else 1)) 100) 2,
           entry_samples_compared = samples_compared_of rs ''NORMAL''\<rparr>"
  "summary (build_result rs bm) ''PNEUMONIA'' =
     Some \<lparr>entry_avg_ssim = score_of rs ''PNEUMONIA'',
           entry_avg_mse = avg_mse_of rs ''PNEUMONIA'',
           similarity_percent = py_round (float_mul (float_div (score_of rs ''PNEUMONIA'')
              (if 0 < float_add (score_of rs ''NORMAL'') (score_of rs ''PNEUMONIA'')
               then float_add (score_of rs ''NORMAL'') (score_of rs ''PNEUMONIA'') else 1)) 100) 2,
           entry_samples_compared = samples_compared_of rs ''PNEUMONIA''\<rparr>"
  by (simp_all add: build_result_def Let_def)

lemma prediction_build_result:
  "prediction (build_result rs bm) =
     (if \<bar>float_sub (score_of rs ''PNEUMONIA'') (score_of rs ''NORMAL'')\<bar> < fl (2 / 100)
      then Uncertain_Result
      else if score_of rs ''NORMAL'' < score_of rs ''PNEUMONIA'' then Pneumonia_Detected
      else Normal_Lungs)"
  by (simp add: build_result_def Let_def del: divide_divide_eq_left times_divide_eq_left)

lemma score_of_summarize:
  "score_of (rs(c \<mapsto> summarize xs)) c = median_or_zero (map similarity xs)"
  by (simp add: score_of_def summarize_def median_or_zero_def)

lemma category_loop_last_draw:
  "category_loop env up n cats (rs0, bm, g) = Inr (rs, bm', g') \<Longrightarrow>
     rs c = (case last_draw env n cats g c of
               None \<Rightarrow> rs0 c
             | Some ps \<Rightarrow> Some (summarize (scored env up c ps)))"
proof (induction cats arbitrary: rs0 bm g)
  case Nil
  then show ?case by simp
next
  case (Cons a cats)
  from Cons.prems obtain st1 where
    step: "process_category env up n a (rs0, bm, g) = Inr st1" and
    rest: "category_loop env up n cats st1 = Inr (rs, bm', g')"
    by (auto split: sum.splits)
  note st1 = process_category_Inr [OF step]
  from Cons.IH [OF rest [unfolded st1]] show ?case
    by (auto split: option.splits)
qed

lemma score_of_run:
  assumes "preprocess_image env p = Inr (Some up8)"
    and "category_loop env (to_float up8) n cats (Map.empty, bm, g) = Inr (rs, bm', g')"
  shows "score_of rs c = category_median env g p n cats c"
proof (cases "last_draw env n cats g c")
  case None
  with category_loop_last_draw [OF assms(2), of c] assms(1) show ?thesis
    by (simp add: score_of_def category_median_def)
next
  case (Some ps)
  with category_loop_last_draw [OF assms(2), of c]
  have "rs c = Some (summarize (scored env (to_float up8) c ps))" by simp
  then have "score_of rs c = median_or_zero (map similarity (scored env (to_float up8) c ps))"
    by (simp add: score_of_def summarize_def median_or_zero_def)
  with Some assms(1) show ?thesis by (simp add: category_median_def)
qed

lemma samples_compared_of_run:
  assumes "category_loop env up n cats (Map.empty, bm, g) = Inr (rs, bm', g')"
  shows "samples_compared_of rs c =
           (case last_draw env n cats g c of None \<Rightarrow> 0 | Some ps \<Rightarrow> length (scored env up c ps))"
  using category_loop_last_draw [OF assms, of c]
  by (simp add: samples_compared_of_def summarize_def split: option.splits)

subsection \<open>Sampled paths and their scores\<close>

lemma scored_member:
  assumes "x \<in> set (scored env up cat ps)"
  shows "fst (snd x) \<in> set ps \<and> compare_sample env up (fst (snd x)) = Inr (Some (similarity x, error_of x))"
  using assms
  by (auto simp: scored_def similarity_def error_of_def split: sum.splits option.splits)

lemma length_scored: "length (scored env up cat ps) \<le> length ps"
  by (induction ps) (auto simp: scored_Cons split: sum.splits option.splits)

lemma compare_sample_ssim:
  assumes "compare_sample env up p = Inr (Some (s, m))"
  shows "\<exists>a b. skimage_ssim env a b = Inr s"
  using assms
  by (auto simp: compare_sample_def Let_def split: sum.splits option.splits if_splits)

lemma path_join_nonempty: "b \<noteq> [] \<Longrightarrow> path_join a b \<noteq> []"
  by (simp add: path_join_def)

lemma is_image_name_nonempty: "is_image_name f \<Longrightarrow> f \<noteq> []"
  by (auto simp: is_image_name_def endswith_def lower_def)

lemma eligible_files_nonempty: "p \<in> set (eligible_files env c) \<Longrightarrow> p \<noteq> []"
  by (auto simp: eligible_files_def image_files_def path_join_nonempty is_image_name_nonempty
      split: sum.splits)

lemma draw_subset:
  assumes "sample_contract env"
  shows "set (fst (draw env n c g)) \<subseteq> set (eligible_files env c)"
proof -
  have "nat (min n (int (length (eligible_files env c)))) \<le> length (eligible_files env c)"
    by simp
  with assms show ?thesis
    unfolding sample_contract_def draw_def by (auto simp del: nat_le_iff)
qed

lemma draw_length:
  assumes "sample_contract env"
  shows "int (length (fst (draw env n c g))) \<le> max 0 (min n (int (length (population env c))))"
proof (cases "\<not> os_isdir env (path_join (BASE_DATA_DIR env) c) \<or> eligible_files env c = []")
  case True
  then show ?thesis by (auto simp: draw_def)
next
  case False
  have "nat (min n (int (length (eligible_files env c)))) \<le> length (eligible_files env c)"
    by simp
  with assms have "length (fst (random_sample env g (eligible_files env c)
      (nat (min n (int (length (eligible_files env c))))))) = nat (min n (int (length (eligible_files env c))))"
    unfolding sample_contract_def by blast
  with False show ?thesis by (simp add: draw_def population_def)
qed

lemma run_scored_member:
  assumes "sample_contract env" and "x \<in> set (run_scored env up n cats g)"
  shows "fst (snd x) \<noteq> [] \<and> (\<exists>a b. skimage_ssim env a b = Inr (similarity x))"
  using assms(2)
proof (induction cats arbitrary: g)
  case Nil
  then show ?case by simp
next
  case (Cons c cs)
  obtain ps g1 where d: "draw env n c g = (ps, g1)" by (cases "draw env n c g")
  from Cons.prems d consider "x \<in> set (scored env up c ps)" | "x \<in> set (run_scored env up n cs g1)"
    by auto
  then show ?case
  proof cases
    case 1
    from scored_member [OF 1] have p: "fst (snd x) \<in> set ps"
      and cs: "compare_sample env up (fst (snd x)) = Inr (Some (similarity x, error_of x))"
      by simp_all
    from draw_subset [OF assms(1), of n c g] d p have "fst (snd x) \<in> set (eligible_files env c)"
      by auto
    with compare_sample_ssim [OF cs] show ?thesis
      by (simp add: eligible_files_nonempty)
  next
    case 2
    then show ?thesis by (rule Cons.IH)
  qed
qed

lemma all_scored_run:
  "preprocess_image env p = Inr (Some up8) \<Longrightarrow>
     all_scored env g p n cats = run_scored env (to_float up8) n cats g"
  by (simp add: all_scored_def)

lemma path_as_best: "path (as_best x) = Some (fst (snd x))"
  by (cases x) (simp add: as_best_def)

lemma best_match_build_result:
  "best_match (build_result rs bm) = (if truthy_path (path bm) then Some bm else None)"
  by (simp add: build_result_def Let_def)

lemma samples_compared_build_result:
  assumes "summary (build_result rs bm) c = Some e"
  shows "(c = ''NORMAL'' \<or> c = ''PNEUMONIA'') \<and>
         entry_samples_compared e = samples_compared_of rs c \<and>
         entry_avg_mse e = avg_mse_of rs c \<and> entry_avg_ssim e = score_of rs c"
  using assms by (auto simp: build_result_def Let_def split: if_splits)

subsection \<open>When the loops return\<close>







subsection \<open>Two worlds with the same inputs\<close>

lemma same_inputs_library: "same_inputs env1 env2 p cats \<Longrightarrow> same_library env1 env2"
  by (simp add: same_inputs_def same_library_def)

lemma preprocess_image_cong:
  assumes "same_library env1 env2" and "cv2_imread env1 f = cv2_imread env2 f"
  shows "preprocess_image env1 f = preprocess_image env2 f"
  using assms
  by (simp add: preprocess_image_def preprocess_body_def same_library_def
      cong: sum.case_cong option.case_cong)

lemma compare_sample_cong:
  assumes "same_library env1 env2" and "cv2_imread env1 f = cv2_imread env2 f"
  shows "compare_sample env1 up f = compare_sample env2 up f"
  using preprocess_image_cong [OF assms] assms(1)
  by (simp add: compare_sample_def same_library_def Let_def
      cong: sum.case_cong option.case_cong if_cong)

lemma sample_loop_cong:
  assumes "same_library env1 env2" and "\<forall>f \<in> set ps. cv2_imread env1 f = cv2_imread env2 f"
  shows "sample_loop env1 up cat ps acc = sample_loop env2 up cat ps acc"
  using assms(2)
proof (induction ps arbitrary: acc)
  case Nil
  show ?case by simp
next
  case (Cons p ps)
  obtain ss ms bm where acc: "acc = (ss, ms, bm)" using prod_cases3 by blast
  from Cons.prems have p: "compare_sample env1 up p = compare_sample env2 up p"
    by (simp add: compare_sample_cong [OF assms(1)])
  from Cons.prems have IH: "sample_loop env1 up cat ps a = sample_loop env2 up cat ps a" for a
    by (simp add: Cons.IH)
  show ?case unfolding acc
    by (simp add: p IH cong: sum.case_cong option.case_cong)
qed

lemma process_category_cong:
  assumes "same_inputs env1 env2 p cats" and "sample_contract env1" and "cat \<in> set cats"
  shows "process_category env1 up n cat st = process_category env2 up n cat st"
proof -
  let ?d = "path_join (BASE_DATA_DIR env1) cat"
  from assms(1) have base: "BASE_DATA_DIR env2 = BASE_DATA_DIR env1"
    and rnd: "random_sample env2 = random_sample env1"
    by (simp_all add: same_inputs_def)
  from assms(1,3) have dir: "os_isdir env2 ?d = os_isdir env1 ?d"
    unfolding same_inputs_def by blast
  note lib = same_inputs_library [OF assms(1)]
  obtain rs bm g where st: "st = (rs, bm, g)" using prod_cases3 by blast
  show ?thesis
  proof (cases "os_isdir env1 ?d")
    case False
    with dir base st show ?thesis by (simp add: process_category_cases)
  next
    case True
    with assms(1,3) have ls: "os_listdir env2 ?d = os_listdir env1 ?d"
      and rd: "\<forall>f \<in> set (eligible_files env1 cat). cv2_imread env1 f = cv2_imread env2 f"
      unfolding same_inputs_def by auto
    from ls base have files: "eligible_files env2 cat = eligible_files env1 cat"
      by (simp add: eligible_files_def split: sum.splits)
    let ?k = "nat (min n (int (length (eligible_files env1 cat))))"
    show ?thesis
    proof (cases "eligible_files env1 cat = [] \<or> min n (int (length (eligible_files env1 cat))) < 0")
      case stop: True
      with True dir base files st ls show ?thesis
        by (auto simp: process_category_cases)
    next
      case go: False
      then obtain names where names: "os_listdir env1 ?d = Inr names"
        by (auto simp: eligible_files_def split: sum.splits)
      obtain ps g1 where d: "random_sample env1 g (eligible_files env1 cat) ?k = (ps, g1)"
        by (cases "random_sample env1 g (eligible_files env1 cat) ?k")
      have "?k \<le> length (eligible_files env1 cat)" by simp
      with assms(2) have "set (fst (random_sample env1 g (eligible_files env1 cat) ?k))
          \<subseteq> set (eligible_files env1 cat)"
        unfolding sample_contract_def by blast
      with d rd have "\<forall>f \<in> set ps. cv2_imread env1 f = cv2_imread env2 f" by auto
      from sample_loop_cong [OF lib this]
      have loop: "sample_loop env2 up cat ps a = sample_loop env1 up cat ps a" for a by simp
      have "process_category env1 up n cat st =
          (case sample_loop env1 up cat ps ([], [], bm) of
             Inl e \<Rightarrow> Inl e
           | Inr (ssim_scores, mse_scores, bm') \<Rightarrow>
               Inr (rs(cat \<mapsto>
                      \<lparr>avg_ssim = (if ssim_scores \<noteq> [] then Some (median ssim_scores) else None),
                       avg_mse = (if mse_scores \<noteq> [] then Some (median mse_scores) else None),
                       samples_compared = length ssim_scores\<rparr>),
                    bm', g1))"
        using True go d st names by (simp add: process_category_cases)
      moreover have "process_category env2 up n cat st =
          (case sample_loop env2 up cat ps ([], [], bm) of
             Inl e \<Rightarrow> Inl e
           | Inr (ssim_scores, mse_scores, bm') \<Rightarrow>
               Inr (rs(cat \<mapsto>
                      \<lparr>avg_ssim = (if ssim_scores \<noteq> [] then Some (median ssim_scores) else None),
                       avg_mse = (if mse_scores \<noteq> [] then Some (median mse_scores) else None),
                       samples_compared = length ssim_scores\<rparr>),
                    bm', g1))"
        using True go d st dir base files rnd names ls by (simp add: process_category_cases)
      ultimately show ?thesis by (simp only: loop)
    qed
  qed
qed

lemma category_loop_cong:
  assumes "same_inputs env1 env2 p cats" and "sample_contract env1" and "set cs \<subseteq> set cats"
  shows "category_loop env1 up n cs st = category_loop env2 up n cs st"
  using assms(3)
proof (induction cs arbitrary: st)
  case Nil
  show ?case by simp
next
  case (Cons c cs)
  from Cons.prems have "c \<in> set cats" by simp
  from process_category_cong [OF assms(1,2) this]
  have step: "process_category env1 up n c st = process_category env2 up n c st" .
  from Cons.prems have IH: "category_loop env1 up n cs a = category_loop env2 up n cs a" for a
    by (simp add: Cons.IH)
  show ?case by (simp add: step IH cong: sum.case_cong)
qed

subsection \<open>The two keys of the summary\<close>

lemma build_result_two_keys:
  assumes "rs2 ''NORMAL'' = rs ''NORMAL''" and "rs2 ''PNEUMONIA'' = rs ''PNEUMONIA''"
  shows "(build_result rs bm)\<lparr>best_match := x\<rparr> = (build_result rs2 bm2)\<lparr>best_match := x\<rparr>"
  using assms
  by (simp add: build_result_def score_of_def avg_mse_of_def samples_compared_of_def Let_def)

lemma dom_summary_build_result: "dom (summary (build_result rs bm)) = {''NORMAL'', ''PNEUMONIA''}"
  by (auto simp: build_result_def Let_def split: if_splits)

subsection \<open>The medians are doubles\<close>

lemma median_double:
  assumes "xs \<noteq> []" and "set xs \<subseteq> range fl"
  shows "median xs \<in> range fl"
proof (cases "length xs mod 2 = 1")
  case True
  from assms(1) have "length xs div 2 < length (sort xs)" by (cases xs) simp_all
  then have "sort xs ! (length xs div 2) \<in> set (sort xs)" by (rule nth_mem)
  with assms(2) True show ?thesis by (auto simp: median_def Let_def)
next
  case False
  then show ?thesis by (simp add: median_def Let_def float_div_def)
qed

lemma median_or_zero_double:
  assumes "set xs \<subseteq> range fl"
  shows "median_or_zero xs \<in> range fl"
proof (cases "xs = []")
  case True
  have "fl 0 \<in> range fl" by (rule rangeI)
  with True show ?thesis by (simp add: median_or_zero_def)
next
  case False
  with median_double [OF False assms] show ?thesis by (simp add: median_or_zero_def)
qed

lemma scored_doubles:
  assumes "ssim_doubles env"
  shows "set (map similarity (scored env up c ps)) \<subseteq> range fl"
proof
  fix s assume "s \<in> set (map similarity (scored env up c ps))"
  then obtain x where x: "x \<in> set (scored env up c ps)" and s: "s = similarity x" by auto
  from scored_member [OF x] have "compare_sample env up (fst (snd x)) = Inr (Some (similarity x, error_of x))"
    by simp
  from compare_sample_ssim [OF this] obtain a b where "skimage_ssim env a b = Inr (similarity x)"
    by blast
  with assms s show "s \<in> range fl" unfolding ssim_doubles_def by blast
qed

lemma category_median_double:
  assumes "ssim_doubles env"
  shows "category_median env g p n cats c \<in> range fl"
proof -
  have zero: "(0 :: real) \<in> range fl" using rangeI [of fl 0] by simp
  show ?thesis
    using zero median_or_zero_double [OF scored_doubles [OF assms]]
    by (simp add: category_median_def split: sum.splits option.splits)
qed

lemma percent_zero:
  "py_round (float_mul (float_div 0 (if 0 < float_add 0 0 then float_add 0 0 else 1)) 100) 2 = 0"
  by (simp add: float_add_def float_div_def float_mul_def py_round_def round_half_even_def)

subsection \<open>The margin in exact terms\<close>

lemma margin_band:
  assumes "\<bar>a\<bar> \<le> 1" and "\<bar>b\<bar> \<le> 1"
  shows "\<bar>b - a\<bar> \<le> 2 / 100 - 1 / 10 ^ 14 \<Longrightarrow> \<bar>float_sub b a\<bar> < fl (2 / 100)"
    and "2 / 100 + 1 / 10 ^ 14 \<le> \<bar>b - a\<bar> \<Longrightarrow> \<not> \<bar>float_sub b a\<bar> < fl (2 / 100)"
proof -
  note u = unit_roundoff_pos unit_roundoff_small min_quantum_small min_quantum_pos
  define w where "w = \<bar>b - a\<bar> * unit_roundoff"
  define d where "d = \<bar>b - a\<bar>"
  define x where "x = \<bar>fl (b - a)\<bar>"
  define t where "t = fl (2 / 100)"
  from assms have "\<bar>b - a\<bar> \<le> 2" by linarith
  then have "\<bar>b - a\<bar> * unit_roundoff \<le> 2 * unit_roundoff"
    using u(1) by (intro mult_right_mono) simp_all
  then have w: "w \<le> 2 / 1000000000000000" using u(2) by (simp add: w_def)
  have q: "min_quantum / 2 \<le> 1 / 1000000000000000" using u(2,3,4) by linarith
  from fl_error [of "b - a"] have "\<bar>fl (b - a) - (b - a)\<bar> \<le> w + min_quantum / 2"
    by (simp add: w_def)
  with w q have e1: "x \<le> d + 3 / 1000000000000000" "d \<le> x + 3 / 1000000000000000"
    unfolding x_def d_def by linarith+
  have "1 / 50 * unit_roundoff \<le> 1 / 1000000000000000" using u(1,2) by linarith
  with fl_error [of "2 / 100"] q
  have e2: "20 / 1000 - 2 / 1000000000000000 \<le> t" "t \<le> 20 / 1000 + 2 / 1000000000000000"
    unfolding t_def by linarith+
  show "\<bar>b - a\<bar> \<le> 2 / 100 - 1 / 10 ^ 14 \<Longrightarrow> \<bar>float_sub b a\<bar> < fl (2 / 100)"
    using e1 e2 unfolding float_sub_def x_def [symmetric] d_def [symmetric] t_def [symmetric]
    by simp
  show "2 / 100 + 1 / 10 ^ 14 \<le> \<bar>b - a\<bar> \<Longrightarrow> \<not> \<bar>float_sub b a\<bar> < fl (2 / 100)"
    using e1 e2 unfolding float_sub_def x_def [symmetric] d_def [symmetric] t_def [symmetric]
    by simp
qed

section \<open>The example worlds, evaluated\<close>

subsection \<open>Doubles that occur in the examples\<close>

lemma fl_values:
  "fl 1 = 1" "fl (1 / 2) = 1 / 2" "fl (1 / 4) = 1 / 4" "fl (3 / 4) = 3 / 4"
  "fl (7 / 4) = 7 / 4" "fl (7 / 8) = 7 / 8" "fl (1 / 8) = 1 / 8"
  "fl 25 = 25" "fl 50 = 50" "fl 75 = 75" "fl 100 = 100"
  "fl (- (1 / 2)) = - (1 / 2)" "fl (- (1 / 4)) = - (1 / 4)" "fl (- 50) = - 50"
  using fl_dyadic [of 1 0] fl_dyadic [of 1 1] fl_dyadic [of 1 2] fl_dyadic [of 3 2]
    fl_dyadic [of 7 2] fl_dyadic [of 7 3] fl_dyadic [of 1 3]
    fl_dyadic [of 25 0] fl_dyadic [of 50 0] fl_dyadic [of 75 0] fl_dyadic [of 100 0]
    fl_dyadic [of "- 1" 1] fl_dyadic [of "- 1" 2] fl_dyadic [of "- 50" 0]
  by simp_all

lemma fl_threshold: "fl (1 / 50) = 5764607523034235 / 2 ^ 58"
proof -
  have "fl (1 / 50) = of_int (round_half_even (1 / 50 * 2 ^ (6 + 52))) / 2 ^ (6 + 52)"
    by (rule fl_below_one) simp_all
  also have "round_half_even (1 / 50 * 2 ^ (6 + 52) :: real) = 5764607523034235"
    by (simp add: round_half_even_def)
  finally show ?thesis by simp
qed

lemma fl_edge:
  "fl (5764607523034235 / 2 ^ 58 - 1 / 2 ^ 60) = 5764607523034235 / 2 ^ 58"
proof -
  have "fl (5764607523034235 / 2 ^ 58 - 1 / 2 ^ 60) =
      of_int (round_half_even ((5764607523034235 / 2 ^ 58 - 1 / 2 ^ 60) * 2 ^ (6 + 52))) / 2 ^ (6 + 52)"
    by (rule fl_below_one) simp_all
  also have "round_half_even ((5764607523034235 / 2 ^ 58 - 1 / 2 ^ 60) * 2 ^ (6 + 52) :: real) =
      5764607523034235"
    by (simp add: round_half_even_def)
  finally show ?thesis by simp
qed

subsection \<open>The demo world\<close>

lemma demo_cv2_contract: "cv2_contract demo_env"
  by (auto simp: cv2_contract_def demo_env_def shape_def split: if_splits)

lemma demo_print_succeeds: "print_succeeds demo_env"
  by (simp add: print_succeeds_def demo_env_def)

lemma demo_ssim_contract: "ssim_contract demo_env"
proof -
  have "- 1 < 1 - real_of_int (min 7 k) / 8" for k
  proof -
    have "real_of_int (min 7 k) \<le> 7" by simp
    then show ?thesis by simp
  qed
  then show ?thesis by (simp add: ssim_contract_def demo_env_def)
qed

lemma demo_ssim_doubles: "ssim_doubles demo_env"
proof -
  have "1 - real_of_int (min 7 k) / 8 \<in> range fl \<and> \<bar>1 - real_of_int (min 7 k) / 8\<bar> \<le> 1"
    if "0 \<le> k" for k
  proof -
    have "\<bar>8 - min 7 k\<bar> < 2 ^ 53" using that by simp
    from fl_dyadic [OF this, of 3]
    have "fl (1 - real_of_int (min 7 k) / 8) = 1 - real_of_int (min 7 k) / 8"
      by (simp add: diff_divide_distrib)
    then have "1 - real_of_int (min 7 k) / 8 \<in> range fl" by (metis rangeI)
    moreover have "0 \<le> real_of_int (min 7 k)" "real_of_int (min 7 k) \<le> 7" using that by simp_all
    then have "\<bar>1 - real_of_int (min 7 k) / 8\<bar> \<le> 1" by simp
    ultimately show ?thesis by simp
  qed
  moreover have "0 \<le> \<lfloor>\<bar>x\<bar> * 255 / 32\<rfloor>" for x :: real by simp
  ultimately show ?thesis by (simp add: ssim_doubles_def demo_env_def)
qed

lemma demo_sample_contract: "sample_contract demo_env"
  by (auto simp: sample_contract_def demo_env_def dest: in_set_takeD)

lemma shape_replicate: "0 < h \<Longrightarrow> shape (replicate h (replicate w v)) = (h, w)"
  by (simp add: shape_def)

lemma mse_replicate:
  "0 < h \<Longrightarrow> 0 < w \<Longrightarrow>
   mse (replicate h (replicate w x)) (replicate h (replicate w y)) = Inr ((x - y)\<^sup>2)"
  by (simp add: mse_def shape_def zip_replicate sum_list_replicate)

lemma to_float_replicate:
  "to_float (replicate h (replicate w v)) = replicate h (replicate w (real (unat v) / 255))"
  by (simp add: to_float_def)

lemma median_single: "median [x] = x"
  by (simp add: median_def)

lemma demo_names:
  "is_image_name ''n1.png''" "\<not> is_image_name ''notes.txt''" "is_image_name ''p1.JPG''"
  "is_image_name ''e1.jpeg''" "is_image_name ''n2.png''" "is_image_name accent_name"
  by code_simp+

lemma demo_world:
  "BASE_DATA_DIR demo_env = ''/app/data''"
  "os_isdir demo_env d =
     (d = ''/app/data/NORMAL'' \<or> d = ''/app/data/PNEUMONIA'' \<or> d = ''/app/data/EXTRA'')"
  "os_listdir demo_env ''/app/data/NORMAL'' = Inr [''n1.png'', ''notes.txt'']"
  "os_listdir demo_env ''/app/data/PNEUMONIA'' = Inr [''p1.JPG'']"
  "os_listdir demo_env ''/app/data/EXTRA'' = Inr [''e1.jpeg'']"
  "random_sample demo_env g xs k = (take k xs, Suc g)"
  "skimage_ssim demo_env a b = Inr (1 - of_int (min 7 \<lfloor>\<bar>hd (hd a) - hd (hd b)\<bar> * 255 / 32\<rfloor>) / 8)"
  by (simp_all add: demo_env_def)

lemma demo_eligible:
  "eligible_files demo_env ''NORMAL'' = [''/app/data/NORMAL/n1.png'']"
  "eligible_files demo_env ''PNEUMONIA'' = [''/app/data/PNEUMONIA/p1.JPG'']"
  "eligible_files demo_env ''EXTRA'' = [''/app/data/EXTRA/e1.jpeg'']"
  by (simp_all add: eligible_files_def image_files_def demo_world path_join_def demo_names)


lemma demo_preprocess:
  "preprocess_image demo_env ''upload.png'' = Inr (Some (replicate 512 (replicate 512 0)))"
  "preprocess_image demo_env ''tie.png'' = Inr (Some (replicate 512 (replicate 512 140)))"
  "preprocess_image demo_env ''missing.png'' = Inr None"
  "preprocess_image demo_env ''/app/data/NORMAL/n1.png'' = Inr (Some (replicate 512 (replicate 512 80)))"
  "preprocess_image demo_env ''/app/data/PNEUMONIA/p1.JPG'' = Inr (Some (replicate 512 (replicate 512 200)))"
  "preprocess_image demo_env ''/app/data/EXTRA/e1.jpeg'' = Inr (Some (replicate 512 (replicate 512 0)))"
  by (simp_all add: preprocess_image_def preprocess_body_def demo_env_def)

lemma demo_compare_sample:
  "compare_sample demo_env (to_float (replicate 512 (replicate 512 0))) ''/app/data/NORMAL/n1.png'' = Inr (Some (3 / 4, 256 / 2601))"
  "compare_sample demo_env (to_float (replicate 512 (replicate 512 0))) ''/app/data/PNEUMONIA/p1.JPG'' = Inr (Some (1 / 4, 1600 / 2601))"
  "compare_sample demo_env (to_float (replicate 512 (replicate 512 0))) ''/app/data/EXTRA/e1.jpeg'' = Inr (Some (1, 0))"
  "compare_sample demo_env (to_float (replicate 512 (replicate 512 140))) ''/app/data/NORMAL/n1.png'' = Inr (Some (7 / 8, 16 / 289))"
  "compare_sample demo_env (to_float (replicate 512 (replicate 512 140))) ''/app/data/PNEUMONIA/p1.JPG'' = Inr (Some (7 / 8, 16 / 289))"
  by (simp_all add: compare_sample_def demo_preprocess to_float_replicate shape_replicate
      mse_replicate demo_world Let_def power2_eq_square)

lemmas run_simps =
  compare_with_dataset_def process_category_cases median_single path_join_def initial_best_def

lemmas result_simps =
  build_result_def score_of_def avg_mse_of_def samples_compared_of_def truthy_path_def Let_def
  float_add_def float_sub_def float_mul_def float_div_def
  py_round_def round_half_even_def no_samples_def fl_values fl_threshold

lemma demo_run:
  "compare_with_dataset demo_env 0 ''upload.png'' 40 [''NORMAL'', ''PNEUMONIA''] = Inr demo_result"
  apply (simp add: run_simps demo_preprocess demo_eligible demo_compare_sample demo_world)
  apply (simp add: result_simps demo_result_def)
  done

lemma tie_run:
  "compare_with_dataset demo_env 0 ''tie.png'' 40 [''NORMAL'', ''PNEUMONIA''] = Inr tie_result"
  apply (simp add: run_simps demo_preprocess demo_eligible demo_compare_sample demo_world)
  apply (simp add: result_simps tie_result_def)
  done

lemma extra_run:
  "compare_with_dataset demo_env 0 ''upload.png'' 40 [''EXTRA'', ''NORMAL'', ''PNEUMONIA''] =
     Inr (demo_result\<lparr>best_match := Some \<lparr>category = Some ''EXTRA'', ssim = 1, mse_of = Finite 0,
                                           path = Some ''/app/data/EXTRA/e1.jpeg''\<rparr>\<rparr>)"
  apply (simp add: run_simps demo_preprocess demo_eligible demo_compare_sample demo_world)
  apply (simp add: result_simps demo_result_def)
  done

lemma missing_run:
  "compare_with_dataset demo_env 0 ''missing.png'' 40 [''NORMAL'', ''PNEUMONIA''] = Inl ValueError"
  by (simp add: compare_with_dataset_def demo_preprocess)


lemma demo_draws:
  "draw demo_env 40 ''NORMAL'' g = ([''/app/data/NORMAL/n1.png''], Suc g)"
  "draw demo_env 40 ''PNEUMONIA'' g = ([''/app/data/PNEUMONIA/p1.JPG''], Suc g)"
  "draw demo_env 40 ''EXTRA'' g = ([''/app/data/EXTRA/e1.jpeg''], Suc g)"
  by (simp_all add: draw_def demo_eligible demo_world path_join_def)

lemma demo_scored:
  "all_scored demo_env 0 ''upload.png'' 40 [''NORMAL'', ''PNEUMONIA''] =
     [(''NORMAL'', ''/app/data/NORMAL/n1.png'', 3 / 4, 256 / 2601),
      (''PNEUMONIA'', ''/app/data/PNEUMONIA/p1.JPG'', 1 / 4, 1600 / 2601)]"
  by (simp add: all_scored_def demo_preprocess demo_draws scored_def demo_compare_sample)

lemma tie_scored:
  "all_scored demo_env 0 ''tie.png'' 40 [''NORMAL'', ''PNEUMONIA''] =
     [(''NORMAL'', ''/app/data/NORMAL/n1.png'', 7 / 8, 16 / 289),
      (''PNEUMONIA'', ''/app/data/PNEUMONIA/p1.JPG'', 7 / 8, 16 / 289)]"
  by (simp add: all_scored_def demo_preprocess demo_draws scored_def demo_compare_sample)

lemma demo_medians:
  "category_median demo_env 0 ''upload.png'' 40 [''NORMAL'', ''PNEUMONIA''] ''NORMAL'' = 3 / 4"
  "category_median demo_env 0 ''upload.png'' 40 [''NORMAL'', ''PNEUMONIA''] ''PNEUMONIA'' = 1 / 4"
  by (simp_all add: category_median_def demo_preprocess demo_draws scored_def demo_compare_sample
      median_or_zero_def median_single similarity_def)

lemma demo_population:
  "population demo_env ''NORMAL'' = [''/app/data/NORMAL/n1.png'']"
  by (simp add: population_def demo_eligible demo_world path_join_def)

subsection \<open>The other worlds\<close>

lemma isdir_update:
  "preprocess_image (env\<lparr>os_isdir := f\<rparr>) p = preprocess_image env p"
  "eligible_files (env\<lparr>os_isdir := f\<rparr>) c = eligible_files env c"
  "compare_sample (env\<lparr>os_isdir := f\<rparr>) up p = compare_sample env up p"
  "BASE_DATA_DIR (env\<lparr>os_isdir := f\<rparr>) = BASE_DATA_DIR env"
  "os_listdir (env\<lparr>os_isdir := f\<rparr>) = os_listdir env"
  "random_sample (env\<lparr>os_isdir := f\<rparr>) = random_sample env"
  "cv2_contract (env\<lparr>os_isdir := f\<rparr>) = cv2_contract env"
  "ssim_errors (env\<lparr>os_isdir := f\<rparr>) = ssim_errors env"
  "ssim_contract (env\<lparr>os_isdir := f\<rparr>) = ssim_contract env"
  "ssim_doubles (env\<lparr>os_isdir := f\<rparr>) = ssim_doubles env"
  "sample_contract (env\<lparr>os_isdir := f\<rparr>) = sample_contract env"
  "print_succeeds (env\<lparr>os_isdir := f\<rparr>) = print_succeeds env"
  "listing_succeeds (env\<lparr>os_isdir := f\<rparr>) cats = listing_succeeds env cats"
  by (simp_all add: preprocess_image_def preprocess_body_def eligible_files_def compare_sample_def
      cv2_contract_def ssim_errors_def ssim_contract_def ssim_doubles_def sample_contract_def
      print_succeeds_def listing_succeeds_def
      cong: sum.case_cong option.case_cong if_cong)

lemma ssim_update:
  "preprocess_image (env\<lparr>skimage_ssim := f\<rparr>) p = preprocess_image env p"
  "eligible_files (env\<lparr>skimage_ssim := f\<rparr>) c = eligible_files env c"
  "BASE_DATA_DIR (env\<lparr>skimage_ssim := f\<rparr>) = BASE_DATA_DIR env"
  "os_isdir (env\<lparr>skimage_ssim := f\<rparr>) = os_isdir env"
  "os_listdir (env\<lparr>skimage_ssim := f\<rparr>) = os_listdir env"
  "random_sample (env\<lparr>skimage_ssim := f\<rparr>) = random_sample env"
  "skimage_ssim (env\<lparr>skimage_ssim := f\<rparr>) = f"
  by (simp_all add: preprocess_image_def preprocess_body_def eligible_files_def
      cong: sum.case_cong option.case_cong if_cong)

lemma skew_world:
  "BASE_DATA_DIR skew_env = BASE_DATA_DIR demo_env"
  "os_isdir skew_env = os_isdir demo_env"
  "os_listdir skew_env = os_listdir demo_env"
  "random_sample skew_env = random_sample demo_env"
  "eligible_files skew_env c = eligible_files demo_env c"
  "preprocess_image skew_env p = preprocess_image demo_env p"
  "skimage_ssim skew_env a b = Inr (if hd (hd b) < 1 / 2 then - 1 / 2 else 1 / 4)"
  by (simp_all add: skew_env_def ssim_update)

lemma skew_compare_sample:
  "compare_sample skew_env (to_float (replicate 512 (replicate 512 0))) ''/app/data/NORMAL/n1.png'' = Inr (Some (- 1 / 2, 256 / 2601))"
  "compare_sample skew_env (to_float (replicate 512 (replicate 512 0))) ''/app/data/PNEUMONIA/p1.JPG'' = Inr (Some (1 / 4, 1600 / 2601))"
  by (simp_all add: compare_sample_def skew_world demo_preprocess to_float_replicate shape_replicate
      mse_replicate Let_def power2_eq_square)

lemma skew_run:
  "compare_with_dataset skew_env 0 ''upload.png'' 40 [''NORMAL'', ''PNEUMONIA''] =
     Inr \<lparr>best_match = Some \<lparr>category = Some ''PNEUMONIA'', ssim = 1 / 4, mse_of = Finite (1600 / 2601),
                              path = Some ''/app/data/PNEUMONIA/p1.JPG''\<rparr>,
          summary = [''NORMAL'' \<mapsto> \<lparr>entry_avg_ssim = - 1 / 2, entry_avg_mse = Some (256 / 2601),
                                     similarity_percent = - 50, entry_samples_compared = 1\<rparr>,
                     ''PNEUMONIA'' \<mapsto> \<lparr>entry_avg_ssim = 1 / 4, entry_avg_mse = Some (1600 / 2601),
                                     similarity_percent = 25, entry_samples_compared = 1\<rparr>],
          confidence_diff = 3 / 4,
          prediction = Pneumonia_Detected\<rparr>"
  apply (simp add: run_simps skew_world demo_preprocess demo_eligible skew_compare_sample demo_world)
  apply (simp add: result_simps)
  done

lemma skew_medians:
  "category_median skew_env 0 ''upload.png'' 40 [''NORMAL'', ''PNEUMONIA''] ''NORMAL'' = - 1 / 2"
  "category_median skew_env 0 ''upload.png'' 40 [''NORMAL'', ''PNEUMONIA''] ''PNEUMONIA'' = 1 / 4"
  by (simp_all add: category_median_def draw_def scored_def skew_world skew_compare_sample
      demo_preprocess demo_eligible demo_world path_join_def median_or_zero_def median_single
      similarity_def)


lemma empty_run:
  "compare_with_dataset empty_env 0 ''upload.png'' (- 1) [''NORMAL'', ''PNEUMONIA''] =
     Inr \<lparr>best_match = None,
          summary = [''NORMAL'' \<mapsto> \<lparr>entry_avg_ssim = 0, entry_avg_mse = None,
                                     similarity_percent = 0, entry_samples_compared = 0\<rparr>,
                     ''PNEUMONIA'' \<mapsto> \<lparr>entry_avg_ssim = 0, entry_avg_mse = None,
                                     similarity_percent = 0, entry_samples_compared = 0\<rparr>],
          confidence_diff = 0,
          prediction = Uncertain_Result\<rparr>"
  unfolding empty_env_def
  apply (simp add: run_simps isdir_update demo_preprocess)
  apply (simp add: result_simps)
  done

lemma empty_population: "population empty_env c = []"
  by (simp add: population_def empty_env_def)


lemma demo_other_same_inputs:
  "same_inputs demo_env other_env ''upload.png'' [''NORMAL'', ''PNEUMONIA'']"
  unfolding same_inputs_def
  by (simp add: demo_eligible) (simp add: other_env_def demo_env_def path_join_def)



lemma accent_message: "\<not> ascii_text (error_message accent_path Cv2Error)"
  by (simp add: ascii_text_def error_message_def accent_path_def accent_name_def)

lemma accent_distinct:
  "accent_path \<noteq> ''upload.png''" "accent_path \<noteq> ''/app/data/NORMAL/n1.png''"
  by (simp_all add: accent_path_def accent_name_def)


lemma ascii_preprocess:
  "preprocess_image ascii_env ''upload.png'' = Inr (Some (replicate 512 (replicate 512 0)))"
  "preprocess_image ascii_env ''/app/data/NORMAL/n1.png'' = Inr (Some (replicate 512 (replicate 512 80)))"
  "preprocess_image ascii_env accent_path = Inl UnicodeEncodeError"
  using accent_message accent_distinct
  by (simp_all add: preprocess_image_def preprocess_body_def ascii_env_def demo_env_def)




lemma rot_world:
  "BASE_DATA_DIR rot_env = ''/app/data''"
  "os_isdir rot_env = os_isdir demo_env"
  "os_listdir rot_env ''/app/data/NORMAL'' = Inr [''n1.png'', ''n2.png'']"
  "os_listdir rot_env ''/app/data/PNEUMONIA'' = Inr [''p1.JPG'']"
  "os_listdir rot_env ''/app/data/EXTRA'' = Inr [''e1.jpeg'']"
  "random_sample rot_env g xs k = (take k (rotate g xs), Suc g)"
  "skimage_ssim rot_env = skimage_ssim demo_env"
  by (simp_all add: rot_env_def demo_env_def)

lemma rot_eligible:
  "eligible_files rot_env ''NORMAL'' = [''/app/data/NORMAL/n1.png'', ''/app/data/NORMAL/n2.png'']"
  "eligible_files rot_env ''PNEUMONIA'' = [''/app/data/PNEUMONIA/p1.JPG'']"
  "eligible_files rot_env ''EXTRA'' = [''/app/data/EXTRA/e1.jpeg'']"
  by (simp_all add: eligible_files_def image_files_def rot_world path_join_def demo_names)

lemma rot_preprocess:
  "preprocess_image rot_env ''upload.png'' = Inr (Some (replicate 512 (replicate 512 0)))"
  "preprocess_image rot_env ''/app/data/NORMAL/n1.png'' = Inr (Some (replicate 512 (replicate 512 80)))"
  "preprocess_image rot_env ''/app/data/NORMAL/n2.png'' = Inr (Some (replicate 512 (replicate 512 200)))"
  "preprocess_image rot_env ''/app/data/PNEUMONIA/p1.JPG'' = Inr (Some (replicate 512 (replicate 512 200)))"
  "preprocess_image rot_env ''/app/data/EXTRA/e1.jpeg'' = Inr (Some (replicate 512 (replicate 512 0)))"
  by (simp_all add: preprocess_image_def preprocess_body_def rot_env_def demo_env_def)

lemma rot_compare_sample:
  "compare_sample rot_env (to_float (replicate 512 (replicate 512 0))) ''/app/data/NORMAL/n1.png'' = Inr (Some (3 / 4, 256 / 2601))"
  "compare_sample rot_env (to_float (replicate 512 (replicate 512 0))) ''/app/data/NORMAL/n2.png'' = Inr (Some (1 / 4, 1600 / 2601))"
  "compare_sample rot_env (to_float (replicate 512 (replicate 512 0))) ''/app/data/PNEUMONIA/p1.JPG'' = Inr (Some (1 / 4, 1600 / 2601))"
  "compare_sample rot_env (to_float (replicate 512 (replicate 512 0))) ''/app/data/EXTRA/e1.jpeg'' = Inr (Some (1, 0))"
  by (simp_all add: compare_sample_def rot_preprocess rot_world to_float_replicate shape_replicate
      mse_replicate demo_world Let_def power2_eq_square)

lemma rot_run:
  "compare_with_dataset rot_env 0 ''upload.png'' 1 [''NORMAL'', ''PNEUMONIA''] = Inr demo_result"
  apply (simp add: run_simps rot_world rot_preprocess rot_eligible rot_compare_sample demo_world)
  apply (simp add: result_simps demo_result_def)
  done

lemma rot_extra_run:
  "compare_with_dataset rot_env 0 ''upload.png'' 1 [''EXTRA'', ''NORMAL'', ''PNEUMONIA''] =
     Inr \<lparr>best_match = Some \<lparr>category = Some ''EXTRA'', ssim = 1, mse_of = Finite 0,
                              path = Some ''/app/data/EXTRA/e1.jpeg''\<rparr>,
          summary = [''NORMAL'' \<mapsto> \<lparr>entry_avg_ssim = 1 / 4, entry_avg_mse = Some (1600 / 2601),
                                     similarity_percent = 50, entry_samples_compared = 1\<rparr>,
                     ''PNEUMONIA'' \<mapsto> \<lparr>entry_avg_ssim = 1 / 4, entry_avg_mse = Some (1600 / 2601),
                                     similarity_percent = 50, entry_samples_compared = 1\<rparr>],
          confidence_diff = 0,
          prediction = Uncertain_Result\<rparr>"
  apply (simp add: run_simps rot_world rot_preprocess rot_eligible rot_compare_sample demo_world)
  apply (simp add: result_simps)
  done

lemma demo_last_draws:
  "last_draw demo_env 40 [''NORMAL'', ''PNEUMONIA''] g ''NORMAL'' = Some [''/app/data/NORMAL/n1.png'']"
  "last_draw demo_env 40 [''NORMAL'', ''PNEUMONIA''] g ''PNEUMONIA'' = Some [''/app/data/PNEUMONIA/p1.JPG'']"
  "last_draw demo_env 40 [''EXTRA'', ''NORMAL'', ''PNEUMONIA''] g ''NORMAL'' = Some [''/app/data/NORMAL/n1.png'']"
  "last_draw demo_env 40 [''EXTRA'', ''NORMAL'', ''PNEUMONIA''] g ''PNEUMONIA'' = Some [''/app/data/PNEUMONIA/p1.JPG'']"
  by (simp_all add: demo_draws)

lemma edge_world:
  "BASE_DATA_DIR edge_env = BASE_DATA_DIR demo_env"
  "os_isdir edge_env = os_isdir demo_env"
  "os_listdir edge_env = os_listdir demo_env"
  "random_sample edge_env = random_sample demo_env"
  "eligible_files edge_env c = eligible_files demo_env c"
  "preprocess_image edge_env p = preprocess_image demo_env p"
  "skimage_ssim edge_env a b = Inr (if hd (hd b) < 1 / 2 then edge_low else edge_high)"
  by (simp_all add: edge_env_def ssim_update)

lemma edge_compare_sample:
  "compare_sample edge_env (to_float (replicate 512 (replicate 512 0))) ''/app/data/NORMAL/n1.png'' = Inr (Some (edge_low, 256 / 2601))"
  "compare_sample edge_env (to_float (replicate 512 (replicate 512 0))) ''/app/data/PNEUMONIA/p1.JPG'' = Inr (Some (edge_high, 1600 / 2601))"
  by (simp_all add: compare_sample_def edge_world demo_preprocess to_float_replicate shape_replicate
      mse_replicate Let_def power2_eq_square)

lemma edge_medians:
  "category_median edge_env 0 ''upload.png'' 40 [''NORMAL'', ''PNEUMONIA''] ''NORMAL'' = edge_low"
  "category_median edge_env 0 ''upload.png'' 40 [''NORMAL'', ''PNEUMONIA''] ''PNEUMONIA'' = edge_high"
  by (simp_all add: category_median_def draw_def scored_def edge_world edge_compare_sample
      demo_preprocess demo_eligible demo_world path_join_def median_or_zero_def median_single
      similarity_def)

lemma edge_margin:
  "float_sub edge_high edge_low = edge_high" "fl (1 / 50) = edge_high" "edge_low < edge_high"
  "\<bar>edge_high - edge_low\<bar> < 2 / 100" "0 < edge_high" "edge_high < 1 / 2"
  using fl_edge fl_threshold
  by (simp_all add: float_sub_def edge_high_def edge_low_def)

lemma edge_returns:
  "\<exists>r. compare_with_dataset edge_env 0 ''upload.png'' 40 [''NORMAL'', ''PNEUMONIA''] = Inr r"
  by (simp add: run_simps edge_world demo_preprocess demo_eligible edge_compare_sample demo_world)

lemma quiet_world:
  "cv2_contract quiet_env" "print_succeeds quiet_env"
  "cv2_imread quiet_env accent_path = Inl Cv2Error"
  "preprocess_image quiet_env accent_path = Inr None"
  by (auto simp: cv2_contract_def print_succeeds_def preprocess_image_def preprocess_body_def
      quiet_env_def ascii_env_def demo_env_def shape_def split: if_splits)

lemma tie_medians:
  "category_median demo_env 0 ''tie.png'' 40 [''NORMAL'', ''PNEUMONIA''] ''NORMAL'' = 7 / 8"
  "category_median demo_env 0 ''tie.png'' 40 [''NORMAL'', ''PNEUMONIA''] ''PNEUMONIA'' = 7 / 8"
  by (simp_all add: category_median_def demo_preprocess demo_draws scored_def demo_compare_sample
      median_or_zero_def median_single similarity_def)

section \<open>The claims\<close>

text \<open>
  C3, as the code has it. An exception leaves \<^verbatim>\<open>preprocess_image\<close> only when a step of
  the \<^verbatim>\<open>try\<close> block has raised and \<^verbatim>\<open>print\<close>, called in the \<^verbatim>\<open>except\<close> clause, raises
  in turn; what leaves is the exception of \<^verbatim>\<open>print\<close>. When \<^verbatim>\<open>print\<close> raises nothing
  (\<open>print_succeeds\<close>), no exception leaves the function: whichever of the five steps
  fails (decode, resize, min-max normalisation, CLAHE, Gaussian blur) the value is
  \<^verbatim>\<open>None\<close>. A file that cannot be read gives \<^verbatim>\<open>None\<close> in every case. On success the value
  is a grid of 512 rows and 512 columns of bytes, OpenCV keeping its documented contract
  on sizes (\<open>cv2_contract\<close>).
\<close>

theorem preprocess_image_raises_only_from_print:
  assumes "cv2_contract env"
  shows "(\<forall>e. preprocess_image env p = Inl e \<longrightarrow>
            (\<exists>e0. preprocess_body env p = Inl e0 \<and> print_stdout env (error_message p e0) = Some e)) \<and>
         (print_succeeds env \<longrightarrow> (\<forall>e. preprocess_image env p \<noteq> Inl e)) \<and>
         (cv2_imread env p = Inr None \<longrightarrow> preprocess_image env p = Inr None) \<and>
         (\<forall>e. print_succeeds env \<and> cv2_imread env p = Inl e \<longrightarrow> preprocess_image env p = Inr None) \<and>
         (\<forall>img e. print_succeeds env \<and> cv2_imread env p = Inr (Some img) \<and>
            cv2_resize env img (512, 512) = Inl e
            \<longrightarrow> preprocess_image env p = Inr None) \<and>
         (\<forall>img img1 e. print_succeeds env \<and> cv2_imread env p = Inr (Some img) \<and>
            cv2_resize env img (512, 512) = Inr img1 \<and> cv2_normalize env img1 = Inl e
            \<longrightarrow> preprocess_image env p = Inr None) \<and>
         (\<forall>img img1 img2 e. print_succeeds env \<and> cv2_imread env p = Inr (Some img) \<and>
            cv2_resize env img (512, 512) = Inr img1 \<and> cv2_normalize env img1 = Inr img2 \<and>
            clahe_apply env img2 = Inl e
            \<longrightarrow> preprocess_image env p = Inr None) \<and>
         (\<forall>img img1 img2 img3 e. print_succeeds env \<and> cv2_imread env p = Inr (Some img) \<and>
            cv2_resize env img (512, 512) = Inr img1 \<and> cv2_normalize env img1 = Inr img2 \<and>
            clahe_apply env img2 = Inr img3 \<and> cv2_GaussianBlur env img3 = Inl e
            \<longrightarrow> preprocess_image env p = Inr None) \<and>
         (\<forall>img. preprocess_image env p = Inr (Some img) \<longrightarrow>
            shape img = (512, 512) \<and> (\<forall>row \<in> set img. \<forall>px \<in> set row. unat px \<le> 255))"
proof -
  have range: "unat px \<le> 255" for px :: "8 word"
    using unsigned_less [of px, where ?'a = nat] by simp
  have raised: "\<forall>e. preprocess_image env p = Inl e \<longrightarrow>
      (\<exists>e0. preprocess_body env p = Inl e0 \<and> print_stdout env (error_message p e0) = Some e)"
    by (auto simp: preprocess_image_def split: sum.splits option.splits)
  have quiet: "print_succeeds env \<longrightarrow> (\<forall>e. preprocess_image env p \<noteq> Inl e)"
    by (simp add: preprocess_image_not_Inl)
  have steps: "print_succeeds env \<and> preprocess_body env p = Inl e \<longrightarrow> preprocess_image env p = Inr None" for e
    by (simp add: preprocess_image_def print_succeeds_def)
  have unreadable: "cv2_imread env p = Inr None \<longrightarrow> preprocess_image env p = Inr None"
    by (simp add: preprocess_image_def preprocess_body_def)
  have size: "\<forall>img. preprocess_image env p = Inr (Some img) \<longrightarrow>
      shape img = (512, 512) \<and> (\<forall>row \<in> set img. \<forall>px \<in> set row. unat px \<le> 255)"
    using preprocess_image_shape [OF assms] range by blast
  show ?thesis
    using raised quiet unreadable size steps
    by (simp add: preprocess_body_def)
qed

theorem preprocess_image_raises_only_from_print_witness:
  "cv2_contract demo_env \<and> print_succeeds demo_env \<and>
   preprocess_image demo_env ''upload.png'' = Inr (Some (replicate 512 (replicate 512 0))) \<and>
   shape (replicate 512 (replicate 512 (0 :: 8 word))) = (512, 512) \<and>
   cv2_imread demo_env ''missing.png'' = Inr None \<and>
   preprocess_image demo_env ''missing.png'' = Inr None \<and>
   cv2_contract quiet_env \<and> print_succeeds quiet_env \<and>
   cv2_imread quiet_env accent_path = Inl Cv2Error \<and>
   preprocess_image quiet_env accent_path = Inr None"
proof -
  have missing: "cv2_imread demo_env ''missing.png'' = Inr None"
    by (simp add: demo_env_def)
  from preprocess_image_raises_only_from_print [OF demo_cv2_contract, of "''upload.png''"]
  have "shape (replicate 512 (replicate 512 (0 :: 8 word))) = (512, 512)"
    by (simp add: demo_preprocess)
  moreover from preprocess_image_raises_only_from_print [OF demo_cv2_contract, of "''missing.png''"]
  have "preprocess_image demo_env ''missing.png'' = Inr None"
    by (simp add: missing)
  moreover from preprocess_image_raises_only_from_print [OF quiet_world(1), of accent_path]
  have "preprocess_image quiet_env accent_path = Inr None"
    by (simp add: quiet_world(2,3))
  ultimately show ?thesis
    by (simp add: demo_cv2_contract demo_print_succeeds demo_preprocess missing quiet_world(1-3))
qed

text \<open>
  C3 as stated fails when \<^verbatim>\<open>print\<close> raises: on a standard output that encodes ASCII
  only, for a path with an accented letter on which \<^verbatim>\<open>cv2.imread\<close> raises, the message
  of the \<^verbatim>\<open>except\<close> clause cannot be encoded and \<^verbatim>\<open>UnicodeEncodeError\<close> leaves the
  function.
\<close>

theorem preprocess_image_counterexample:
  "cv2_imread ascii_env accent_path = Inl Cv2Error \<and>
   print_stdout ascii_env (error_message accent_path Cv2Error) = Some UnicodeEncodeError \<and>
   preprocess_image ascii_env accent_path = Inl UnicodeEncodeError"
  using accent_message
  by (simp add: ascii_preprocess) (simp add: ascii_env_def)

text \<open>
  C1. Whenever a record is returned, its verdict follows from the two category medians
  of the run, \<open>a\<close> for NORMAL and \<open>b\<close> for PNEUMONIA (\<open>category_median\<close>: the median
  similarity of the samples compared for the category, 0 when there are none; they are
  the scores the record reports as \<^verbatim>\<open>avg_ssim\<close>): the verdict is "uncertain" exactly when
  \<^verbatim>\<open>abs(b - a) < 0.02\<close>, "pneumonia" when it is not and \<open>a < b\<close>, "normal" when it is not
  and \<open>b \<le> a\<close>. The difference and the threshold are those the source computes, the
  double-precision difference and the double nearest to 2/100. In exact terms, for
  scores between \<open>-1\<close> and 1: the verdict is "uncertain" when the exact difference of
  the medians is at most \<open>0.02 - 10\<^sup>-\<^sup>1\<^sup>4\<close> and is not when it is at least
  \<open>0.02 + 10\<^sup>-\<^sup>1\<^sup>4\<close>.
\<close>

theorem verdict_follows_margin:
  assumes "compare_with_dataset env g p n cats = Inr r"
  shows "(prediction r = Uncertain_Result \<longleftrightarrow>
            \<bar>float_sub (category_median env g p n cats ''PNEUMONIA'')
                       (category_median env g p n cats ''NORMAL'')\<bar> < fl (2 / 100)) \<and>
         (\<not> \<bar>float_sub (category_median env g p n cats ''PNEUMONIA'')
                       (category_median env g p n cats ''NORMAL'')\<bar> < fl (2 / 100) \<and>
          category_median env g p n cats ''NORMAL'' < category_median env g p n cats ''PNEUMONIA''
            \<longrightarrow> prediction r = Pneumonia_Detected) \<and>
         (\<not> \<bar>float_sub (category_median env g p n cats ''PNEUMONIA'')
                       (category_median env g p n cats ''NORMAL'')\<bar> < fl (2 / 100) \<and>
          category_median env g p n cats ''PNEUMONIA'' \<le> category_median env g p n cats ''NORMAL''
            \<longrightarrow> prediction r = Normal_Lungs) \<and>
         (\<bar>category_median env g p n cats ''NORMAL''\<bar> \<le> 1 \<and>
          \<bar>category_median env g p n cats ''PNEUMONIA''\<bar> \<le> 1 \<and>
          \<bar>category_median env g p n cats ''PNEUMONIA'' - category_median env g p n cats ''NORMAL''\<bar>
            \<le> 2 / 100 - 1 / 10 ^ 14
            \<longrightarrow> prediction r = Uncertain_Result) \<and>
         (\<bar>category_median env g p n cats ''NORMAL''\<bar> \<le> 1 \<and>
          \<bar>category_median env g p n cats ''PNEUMONIA''\<bar> \<le> 1 \<and>
          2 / 100 + 1 / 10 ^ 14
            \<le> \<bar>category_median env g p n cats ''PNEUMONIA'' - category_median env g p n cats ''NORMAL''\<bar>
            \<longrightarrow> prediction r \<noteq> Uncertain_Result) \<and>
         (\<exists>en ep. summary r ''NORMAL'' = Some en \<and> summary r ''PNEUMONIA'' = Some ep \<and>
            entry_avg_ssim en = category_median env g p n cats ''NORMAL'' \<and>
            entry_avg_ssim ep = category_median env g p n cats ''PNEUMONIA'' \<and>
            (entry_samples_compared en = 0 \<longrightarrow> category_median env g p n cats ''NORMAL'' = 0) \<and>
            (entry_samples_compared ep = 0 \<longrightarrow> category_median env g p n cats ''PNEUMONIA'' = 0))"
proof -
  from assms obtain up8 rs bm g' where
    pre: "preprocess_image env p = Inr (Some up8)" and
    loop: "category_loop env (to_float up8) n cats (Map.empty, initial_best, g) = Inr (rs, bm, g')"
    and r: "r = build_result rs bm"
    by (rule compare_Inr)
  define a where "a = category_median env g p n cats ''NORMAL''"
  define b where "b = category_median env g p n cats ''PNEUMONIA''"
  have score: "score_of rs ''NORMAL'' = a" "score_of rs ''PNEUMONIA'' = b"
    unfolding a_def b_def by (rule score_of_run [OF pre loop])+
  have none: "category_median env g p n cats c = 0" if "samples_compared_of rs c = 0" for c
    using that samples_compared_of_run [OF loop, of c] pre
    by (simp add: category_median_def median_or_zero_def split: option.splits)
  have verdict: "prediction r =
      (if \<bar>float_sub b a\<bar> < fl (2 / 100) then Uncertain_Result
       else if a < b then Pneumonia_Detected else Normal_Lungs)"
    unfolding r prediction_build_result score ..
  have uncertain: "prediction r = Uncertain_Result \<longleftrightarrow> \<bar>float_sub b a\<bar> < fl (2 / 100)"
    unfolding verdict by simp
  have pneumonia: "\<not> \<bar>float_sub b a\<bar> < fl (2 / 100) \<and> a < b \<longrightarrow> prediction r = Pneumonia_Detected"
    unfolding verdict by simp
  have normal: "\<not> \<bar>float_sub b a\<bar> < fl (2 / 100) \<and> b \<le> a \<longrightarrow> prediction r = Normal_Lungs"
    unfolding verdict by simp
  have inside: "\<bar>a\<bar> \<le> 1 \<and> \<bar>b\<bar> \<le> 1 \<and> \<bar>b - a\<bar> \<le> 2 / 100 - 1 / 10 ^ 14
      \<longrightarrow> prediction r = Uncertain_Result"
    using margin_band(1) [of a b] uncertain by blast
  have outside: "\<bar>a\<bar> \<le> 1 \<and> \<bar>b\<bar> \<le> 1 \<and> 2 / 100 + 1 / 10 ^ 14 \<le> \<bar>b - a\<bar>
      \<longrightarrow> prediction r \<noteq> Uncertain_Result"
    using margin_band(2) [of a b] uncertain by blast
  have entries: "\<exists>en ep. summary r ''NORMAL'' = Some en \<and> summary r ''PNEUMONIA'' = Some ep \<and>
      entry_avg_ssim en = a \<and> entry_avg_ssim ep = b \<and>
      (entry_samples_compared en = 0 \<longrightarrow> a = 0) \<and> (entry_samples_compared ep = 0 \<longrightarrow> b = 0)"
    unfolding r a_def b_def using none
    by (simp add: summary_build_result score [unfolded a_def b_def])
  from uncertain pneumonia normal inside outside entries show ?thesis
    unfolding a_def b_def by - (intro conjI, assumption+)
qed

theorem verdict_follows_margin_witness:
  "compare_with_dataset demo_env 0 ''upload.png'' 40 [''NORMAL'', ''PNEUMONIA''] = Inr demo_result \<and>
   category_median demo_env 0 ''upload.png'' 40 [''NORMAL'', ''PNEUMONIA''] ''NORMAL'' = 3 / 4 \<and>
   category_median demo_env 0 ''upload.png'' 40 [''NORMAL'', ''PNEUMONIA''] ''PNEUMONIA'' = 1 / 4 \<and>
   float_sub (1 / 4) (3 / 4) = - (1 / 2) \<and> fl (2 / 100) < 1 / 2 \<and>
   prediction demo_result = Normal_Lungs \<and>
   compare_with_dataset demo_env 0 ''tie.png'' 40 [''NORMAL'', ''PNEUMONIA''] = Inr tie_result \<and>
   category_median demo_env 0 ''tie.png'' 40 [''NORMAL'', ''PNEUMONIA''] ''NORMAL'' = 7 / 8 \<and>
   category_median demo_env 0 ''tie.png'' 40 [''NORMAL'', ''PNEUMONIA''] ''PNEUMONIA'' = 7 / 8 \<and>
   prediction tie_result = Uncertain_Result \<and>
   (\<exists>r. compare_with_dataset edge_env 0 ''upload.png'' 40 [''NORMAL'', ''PNEUMONIA''] = Inr r \<and>
        prediction r = Pneumonia_Detected) \<and>
   category_median edge_env 0 ''upload.png'' 40 [''NORMAL'', ''PNEUMONIA''] ''NORMAL'' = edge_low \<and>
   category_median edge_env 0 ''upload.png'' 40 [''NORMAL'', ''PNEUMONIA''] ''PNEUMONIA'' = edge_high \<and>
   float_sub edge_high edge_low = edge_high \<and> fl (2 / 100) = edge_high \<and>
   \<bar>edge_high - edge_low\<bar> < 2 / 100"
proof -
  from edge_returns obtain r where
    r: "compare_with_dataset edge_env 0 ''upload.png'' 40 [''NORMAL'', ''PNEUMONIA''] = Inr r" ..
  from verdict_follows_margin [OF r] have "prediction r = Pneumonia_Detected"
    by (simp add: edge_medians edge_margin)
  with r have edge: "\<exists>r. compare_with_dataset edge_env 0 ''upload.png'' 40 [''NORMAL'', ''PNEUMONIA''] = Inr r \<and>
      prediction r = Pneumonia_Detected"
    by blast
  from verdict_follows_margin [OF demo_run] have demo: "prediction demo_result = Normal_Lungs"
    by (simp add: demo_medians float_sub_def fl_values fl_threshold)
  from verdict_follows_margin [OF tie_run] have "prediction tie_result = Uncertain_Result"
    by (simp add: tie_medians float_sub_def fl_threshold)
  with demo edge edge_margin show ?thesis
    by (simp add: demo_run tie_run demo_medians tie_medians edge_medians float_sub_def [of "1 / 4"]
        fl_values)
qed

text \<open>
  C5, as the code has it. Let \<open>a\<close> and \<open>b\<close> be the category medians of the run for NORMAL
  and PNEUMONIA, \<^verbatim>\<open>structural_similarity\<close> returning doubles between \<open>-1\<close> and 1
  (\<open>ssim_doubles\<close>). When neither median is negative and they are not both zero, the two
  percentages of the returned record add up to 100 within the tolerance of the two
  roundings to two decimals, \<open>0.01 + 10\<^sup>-\<^sup>9\<close>. When both medians are 0, both percentages
  are 0.
\<close>

theorem similarity_percentages:
  assumes "compare_with_dataset env g p n cats = Inr r" and "ssim_doubles env"
  shows "\<exists>en ep. summary r ''NORMAL'' = Some en \<and> summary r ''PNEUMONIA'' = Some ep \<and>
           (0 \<le> category_median env g p n cats ''NORMAL'' \<and>
            0 \<le> category_median env g p n cats ''PNEUMONIA'' \<and>
            (category_median env g p n cats ''NORMAL'' \<noteq> 0 \<or>
             category_median env g p n cats ''PNEUMONIA'' \<noteq> 0) \<longrightarrow>
              \<bar>similarity_percent en + similarity_percent ep - 100\<bar> \<le> 1 / 100 + 1 / 10 ^ 9) \<and>
           (category_median env g p n cats ''NORMAL'' = 0 \<and>
            category_median env g p n cats ''PNEUMONIA'' = 0 \<longrightarrow>
              similarity_percent en = 0 \<and> similarity_percent ep = 0)"
proof -
  from assms(1) obtain up8 rs bm g' where
    pre: "preprocess_image env p = Inr (Some up8)" and
    loop: "category_loop env (to_float up8) n cats (Map.empty, initial_best, g) = Inr (rs, bm, g')"
    and r: "r = build_result rs bm"
    by (rule compare_Inr)
  define a where "a = category_median env g p n cats ''NORMAL''"
  define b where "b = category_median env g p n cats ''PNEUMONIA''"
  have score: "score_of rs ''NORMAL'' = a" "score_of rs ''PNEUMONIA'' = b"
    unfolding a_def b_def by (rule score_of_run [OF pre loop])+
  have doubles: "a \<in> range fl" "b \<in> range fl"
    unfolding a_def b_def by (rule category_median_double [OF assms(2)])+
  define pa where "pa = py_round (float_mul (float_div a (if 0 < float_add a b then float_add a b else 1)) 100) 2"
  define pb where "pb = py_round (float_mul (float_div b (if 0 < float_add a b then float_add a b else 1)) 100) 2"
  have entries: "summary r ''NORMAL'' =
      Some \<lparr>entry_avg_ssim = a, entry_avg_mse = avg_mse_of rs ''NORMAL'',
            similarity_percent = pa, entry_samples_compared = samples_compared_of rs ''NORMAL''\<rparr>"
    "summary r ''PNEUMONIA'' =
      Some \<lparr>entry_avg_ssim = b, entry_avg_mse = avg_mse_of rs ''PNEUMONIA'',
            similarity_percent = pb, entry_samples_compared = samples_compared_of rs ''PNEUMONIA''\<rparr>"
    unfolding r pa_def pb_def score [symmetric] by (rule summary_build_result)+
  have sum: "\<bar>pa + pb - 100\<bar> \<le> 1 / 100 + 1 / 10 ^ 9" if "0 \<le> a" "0 \<le> b" "a \<noteq> 0 \<or> b \<noteq> 0"
  proof -
    from total_close(1) [OF doubles that] have "0 < float_add a b" by (simp add: float_add_def)
    with percent_sum [OF doubles that] show ?thesis
      by (simp add: pa_def pb_def float_add_def float_div_def float_mul_def)
  qed
  have zero: "pa = 0 \<and> pb = 0" if "a = 0" "b = 0"
    unfolding pa_def pb_def that by (simp add: percent_zero)
  from sum zero show ?thesis
    unfolding a_def [symmetric] b_def [symmetric] entries by simp
qed

theorem similarity_percentages_witness:
  "compare_with_dataset demo_env 0 ''upload.png'' 40 [''NORMAL'', ''PNEUMONIA''] = Inr demo_result \<and>
   ssim_doubles demo_env \<and>
   category_median demo_env 0 ''upload.png'' 40 [''NORMAL'', ''PNEUMONIA''] ''NORMAL'' = 3 / 4 \<and>
   category_median demo_env 0 ''upload.png'' 40 [''NORMAL'', ''PNEUMONIA''] ''PNEUMONIA'' = 1 / 4 \<and>
   summary demo_result ''NORMAL'' =
     Some \<lparr>entry_avg_ssim = 3 / 4, entry_avg_mse = Some (256 / 2601),
           similarity_percent = 75, entry_samples_compared = 1\<rparr> \<and>
   summary demo_result ''PNEUMONIA'' =
     Some \<lparr>entry_avg_ssim = 1 / 4, entry_avg_mse = Some (1600 / 2601),
           similarity_percent = 25, entry_samples_compared = 1\<rparr> \<and>
   \<bar>(75 :: real) + 25 - 100\<bar> \<le> 1 / 100 + 1 / 10 ^ 9"
  using similarity_percentages [OF demo_run demo_ssim_doubles]
  by (simp add: demo_run demo_ssim_doubles demo_medians demo_result_def)

text \<open>
  C5 as stated fails when the two scores are not both zero but one of them is negative:
  with medians \<open>-0.5\<close> and \<open>0.25\<close> the sum is not positive, the divisor is 1, and the
  percentages are \<open>-50\<close> and \<open>25\<close>.
\<close>

theorem percentages_counterexample:
  "category_median skew_env 0 ''upload.png'' 40 [''NORMAL'', ''PNEUMONIA''] ''NORMAL'' = - 1 / 2 \<and>
   category_median skew_env 0 ''upload.png'' 40 [''NORMAL'', ''PNEUMONIA''] ''PNEUMONIA'' = 1 / 4 \<and>
   compare_with_dataset skew_env 0 ''upload.png'' 40 [''NORMAL'', ''PNEUMONIA''] =
     Inr \<lparr>best_match = Some \<lparr>category = Some ''PNEUMONIA'', ssim = 1 / 4, mse_of = Finite (1600 / 2601),
                              path = Some ''/app/data/PNEUMONIA/p1.JPG''\<rparr>,
          summary = [''NORMAL'' \<mapsto> \<lparr>entry_avg_ssim = - 1 / 2, entry_avg_mse = Some (256 / 2601),
                                     similarity_percent = - 50, entry_samples_compared = 1\<rparr>,
                     ''PNEUMONIA'' \<mapsto> \<lparr>entry_avg_ssim = 1 / 4, entry_avg_mse = Some (1600 / 2601),
                                     similarity_percent = 25, entry_samples_compared = 1\<rparr>],
          confidence_diff = 3 / 4,
          prediction = Pneumonia_Detected\<rparr>"
  by (simp only: skew_medians skew_run simp_thms)







text \<open>
  C6. Whenever a record with a best match is returned, the similarity of the best match
  is at least the similarity of every sample compared during the run (\<open>all_scored\<close>, over
  all categories), and the best match is the first sample of the run that attains it:
  every sample compared before it has a strictly smaller similarity.
\<close>

theorem best_match_is_first_maximum:
  assumes "compare_with_dataset env g p n cats = Inr r" and "best_match r = Some b"
  shows "(\<forall>x \<in> set (all_scored env g p n cats). similarity x \<le> ssim b) \<and>
         (\<exists>i < length (all_scored env g p n cats).
            as_best (all_scored env g p n cats ! i) = b \<and>
            (\<forall>j < i. similarity (all_scored env g p n cats ! j) < ssim b))"
proof -
  from assms(1) obtain up8 rs bm g' where
    pre: "preprocess_image env p = Inr (Some up8)" and
    loop: "category_loop env (to_float up8) n cats (Map.empty, initial_best, g) = Inr (rs, bm, g')" and
    r: "r = build_result rs bm"
    by (rule compare_Inr)
  let ?xs = "all_scored env g p n cats"
  have xs: "?xs = run_scored env (to_float up8) n cats g"
    using pre by (rule all_scored_run)
  have bm: "bm = foldl track initial_best ?xs"
    using category_loop_best [OF loop] xs by simp
  from assms(2) r have b: "b = bm" and truthy: "truthy_path (path bm)"
    by (simp_all add: best_match_build_result split: if_splits)
  from truthy have "bm \<noteq> initial_best"
    by (auto simp: initial_best_def truthy_path_def)
  with foldl_track_first [of initial_best ?xs] bm obtain i where
    i: "i < length ?xs" "bm = as_best (?xs ! i)" "\<forall>j < i. similarity (?xs ! j) < similarity (?xs ! i)"
    by auto
  have upper: "\<forall>x \<in> set ?xs. similarity x \<le> ssim b"
    using foldl_track_upper [of _ ?xs initial_best] bm b by simp
  from i b have "as_best (?xs ! i) = b \<and> (\<forall>j < i. similarity (?xs ! j) < ssim b)"
    by simp
  with i(1) upper show ?thesis by blast
qed

theorem best_match_is_first_maximum_witness:
  "compare_with_dataset demo_env 0 ''tie.png'' 40 [''NORMAL'', ''PNEUMONIA''] = Inr tie_result \<and>
   best_match tie_result =
     Some \<lparr>category = Some ''NORMAL'', ssim = 7 / 8, mse_of = Finite (16 / 289),
           path = Some ''/app/data/NORMAL/n1.png''\<rparr> \<and>
   all_scored demo_env 0 ''tie.png'' 40 [''NORMAL'', ''PNEUMONIA''] =
     [(''NORMAL'', ''/app/data/NORMAL/n1.png'', 7 / 8, 16 / 289),
      (''PNEUMONIA'', ''/app/data/PNEUMONIA/p1.JPG'', 7 / 8, 16 / 289)]"
  using best_match_is_first_maximum [OF tie_run, of "the (best_match tie_result)"]
  by (simp add: tie_run tie_scored) (simp add: tie_result_def)

text \<open>
  C7, as the code has it. For every non-negative \<^verbatim>\<open>sample_size\<close> and every category of
  the returned summary, \<^verbatim>\<open>samples_compared\<close> is at most the minimum of \<^verbatim>\<open>sample_size\<close>
  and the number of eligible files of the category (\<^verbatim>\<open>random.sample\<close> returning as many
  files as it is asked for).
\<close>

theorem samples_compared_bounded:
  assumes "compare_with_dataset env g p n cats = Inr r"
    and "sample_contract env" and "0 \<le> n" and "summary r c = Some e"
  shows "int (entry_samples_compared e) \<le> min n (int (length (population env c)))"
proof -
  from assms(1) obtain up8 rs bm g' where
    loop: "category_loop env (to_float up8) n cats (Map.empty, initial_best, g) = Inr (rs, bm, g')" and
    r: "r = build_result rs bm"
    by (rule compare_Inr)
  from assms(4) r have e: "entry_samples_compared e = samples_compared_of rs c"
    by (simp add: samples_compared_build_result)
  show ?thesis
  proof (cases "rs c")
    case None
    with e assms(3) show ?thesis by (simp add: samples_compared_of_def)
  next
    case (Some e')
    from category_loop_entries [OF loop Some] obtain g0 where
      "e' = summarize (scored env (to_float up8) c (fst (draw env n c g0)))"
      by auto
    with e Some have "entry_samples_compared e = length (scored env (to_float up8) c (fst (draw env n c g0)))"
      by (simp add: samples_compared_of_def summarize_def)
    also have "\<dots> \<le> length (fst (draw env n c g0))" by (rule length_scored)
    finally have "int (entry_samples_compared e) \<le> int (length (fst (draw env n c g0)))" by simp
    also note draw_length [OF assms(2), of n c g0]
    finally show ?thesis using assms(3) by simp
  qed
qed

theorem samples_compared_bounded_witness:
  "compare_with_dataset demo_env 0 ''upload.png'' 40 [''NORMAL'', ''PNEUMONIA''] = Inr demo_result \<and>
   sample_contract demo_env \<and> (0 :: int) \<le> 40 \<and>
   summary demo_result ''NORMAL'' =
     Some \<lparr>entry_avg_ssim = 3 / 4, entry_avg_mse = Some (256 / 2601),
           similarity_percent = 75, entry_samples_compared = 1\<rparr> \<and>
   population demo_env ''NORMAL'' = [''/app/data/NORMAL/n1.png''] \<and>
   int 1 \<le> min 40 (int (length (population demo_env ''NORMAL'')))"
proof -
  have e: "summary demo_result ''NORMAL'' =
     Some \<lparr>entry_avg_ssim = 3 / 4, entry_avg_mse = Some (256 / 2601),
           similarity_percent = 75, entry_samples_compared = 1\<rparr>"
    by (simp add: demo_result_def)
  have n: "(0 :: int) \<le> 40" by simp
  from samples_compared_bounded [OF demo_run demo_sample_contract n e] e
  show ?thesis by (simp add: demo_run demo_sample_contract demo_population)
qed

text \<open>
  C7 as stated fails for a negative \<^verbatim>\<open>sample_size\<close>: with no category directory the call
  returns \<^verbatim>\<open>samples_compared\<close> 0, which exceeds the minimum of \<open>-1\<close> and 0.
\<close>

theorem samples_compared_counterexample:
  "compare_with_dataset empty_env 0 ''upload.png'' (- 1) [''NORMAL'', ''PNEUMONIA''] =
     Inr \<lparr>best_match = None,
          summary = [''NORMAL'' \<mapsto> \<lparr>entry_avg_ssim = 0, entry_avg_mse = None,
                                     similarity_percent = 0, entry_samples_compared = 0\<rparr>,
                     ''PNEUMONIA'' \<mapsto> \<lparr>entry_avg_ssim = 0, entry_avg_mse = None,
                                     similarity_percent = 0, entry_samples_compared = 0\<rparr>],
          confidence_diff = 0,
          prediction = Uncertain_Result\<rparr> \<and>
   population empty_env ''NORMAL'' = [] \<and>
   \<not> int 0 \<le> min (- 1) (int (length (population empty_env ''NORMAL'')))"
  by (simp add: empty_run empty_population)

text \<open>
  C8. Whenever a record is returned, its best match is present exactly when at least one
  sampled file was compared successfully. The similarity library is assumed to return
  values above \<open>-1\<close>, the initial value of the tracker, and \<^verbatim>\<open>random.sample\<close> to return
  files of the population (their paths are then non-empty strings).
\<close>

theorem best_match_reported_iff_scored:
  assumes "compare_with_dataset env g p n cats = Inr r"
    and "ssim_contract env" and "sample_contract env"
  shows "best_match r \<noteq> None \<longleftrightarrow> all_scored env g p n cats \<noteq> []"
proof -
  from assms(1) obtain up8 rs bm g' where
    pre: "preprocess_image env p = Inr (Some up8)" and
    loop: "category_loop env (to_float up8) n cats (Map.empty, initial_best, g) = Inr (rs, bm, g')" and
    r: "r = build_result rs bm"
    by (rule compare_Inr)
  let ?xs = "all_scored env g p n cats"
  have xs: "?xs = run_scored env (to_float up8) n cats g"
    using pre by (rule all_scored_run)
  have bm: "bm = foldl track initial_best ?xs"
    using category_loop_best [OF loop] xs by simp
  show ?thesis
  proof (cases "?xs = []")
    case True
    with bm have "bm = initial_best" by simp
    with True r show ?thesis
      by (simp add: best_match_build_result initial_best_def truthy_path_def)
  next
    case False
    then obtain x where x: "x \<in> set ?xs" by (cases ?xs) auto
    from run_scored_member [OF assms(3) x [unfolded xs]] assms(2)
    have "- 1 < similarity x" unfolding ssim_contract_def by blast
    also have "similarity x \<le> ssim bm"
      using foldl_track_upper [OF x, of initial_best] bm by simp
    finally have "bm \<noteq> initial_best" by (auto simp: initial_best_def)
    with foldl_track_first [of initial_best ?xs] bm obtain i where
      i: "i < length ?xs" "bm = as_best (?xs ! i)"
      by auto
    from i(1) have "?xs ! i \<in> set ?xs" by simp
    from run_scored_member [OF assms(3) this [unfolded xs]] xs
    have "fst (snd (?xs ! i)) \<noteq> []" by simp
    with i(2) have "truthy_path (path bm)"
      by (simp add: path_as_best truthy_path_def)
    with False r show ?thesis
      by (simp add: best_match_build_result)
  qed
qed

theorem best_match_reported_iff_scored_witness:
  "ssim_contract demo_env \<and> sample_contract demo_env \<and>
   compare_with_dataset demo_env 0 ''upload.png'' 40 [''NORMAL'', ''PNEUMONIA''] = Inr demo_result \<and>
   best_match demo_result \<noteq> None \<and>
   all_scored demo_env 0 ''upload.png'' 40 [''NORMAL'', ''PNEUMONIA''] \<noteq> []"
  using best_match_reported_iff_scored [OF demo_run demo_ssim_contract demo_sample_contract]
  by (simp add: demo_run demo_ssim_contract demo_sample_contract demo_scored)

text \<open>
  C9. Two runs with the same random state, the same random source, the same libraries,
  identical uploaded image and identical corpus (directories, listings and file
  contents of the categories of the call) give the same outcome: the same record in
  every field, or the same exception. Whatever else differs between the two worlds
  has no effect.
\<close>

theorem same_inputs_same_record:
  assumes "same_inputs env1 env2 p cats" and "sample_contract env1"
  shows "compare_with_dataset env1 g p n cats = compare_with_dataset env2 g p n cats"
proof -
  from assms(1) have "cv2_imread env1 p = cv2_imread env2 p"
    by (simp add: same_inputs_def)
  from preprocess_image_cong [OF same_inputs_library [OF assms(1)] this]
  have pre: "preprocess_image env1 p = preprocess_image env2 p" .
  have loop: "category_loop env1 up n cats st = category_loop env2 up n cats st" for up st
    by (rule category_loop_cong [OF assms]) simp
  show ?thesis
    by (simp add: compare_with_dataset_def pre loop cong: sum.case_cong option.case_cong)
qed

theorem same_inputs_same_record_witness:
  "same_inputs demo_env other_env ''upload.png'' [''NORMAL'', ''PNEUMONIA''] \<and>
   sample_contract demo_env \<and>
   cv2_imread demo_env ''/tmp/scan.png'' \<noteq> cv2_imread other_env ''/tmp/scan.png'' \<and>
   compare_with_dataset demo_env 0 ''upload.png'' 40 [''NORMAL'', ''PNEUMONIA''] = Inr demo_result \<and>
   compare_with_dataset other_env 0 ''upload.png'' 40 [''NORMAL'', ''PNEUMONIA''] = Inr demo_result"
  using same_inputs_same_record [OF demo_other_same_inputs demo_sample_contract,
      of 0 40]
  by (simp add: demo_other_same_inputs demo_sample_contract demo_run)
     (simp add: other_env_def demo_env_def)

text \<open>
  C10, as the code has it. For every categories argument, the summary of a returned
  record has exactly the keys NORMAL and PNEUMONIA, and everything in the record but
  its best match (both summary entries with their percentages, \<^verbatim>\<open>confidence_diff\<close> and
  the prediction) is determined by the files sampled for these two categories
  (\<open>last_draw\<close>): two calls in the same world on the same image and \<^verbatim>\<open>sample_size\<close>,
  whatever their categories and random states, whose draws for NORMAL and for
  PNEUMONIA coincide, return records that differ in the best match at most. Another
  category reaches the record through the best match and through the random draws
  only.
\<close>

theorem summary_from_two_draws:
  assumes "compare_with_dataset env g1 p n cats1 = Inr r1"
    and "compare_with_dataset env g2 p n cats2 = Inr r2"
    and "last_draw env n cats1 g1 ''NORMAL'' = last_draw env n cats2 g2 ''NORMAL''"
    and "last_draw env n cats1 g1 ''PNEUMONIA'' = last_draw env n cats2 g2 ''PNEUMONIA''"
  shows "dom (summary r1) = {''NORMAL'', ''PNEUMONIA''} \<and>
         summary r1 = summary r2 \<and> confidence_diff r1 = confidence_diff r2 \<and>
         prediction r1 = prediction r2"
proof -
  from assms(1) obtain up8 rs1 bm1 g1' where
    pre1: "preprocess_image env p = Inr (Some up8)" and
    loop1: "category_loop env (to_float up8) n cats1 (Map.empty, initial_best, g1) = Inr (rs1, bm1, g1')" and
    r1: "r1 = build_result rs1 bm1"
    by (rule compare_Inr)
  from assms(2) obtain up8' rs2 bm2 g2' where
    pre2: "preprocess_image env p = Inr (Some up8')" and
    loop2: "category_loop env (to_float up8') n cats2 (Map.empty, initial_best, g2) = Inr (rs2, bm2, g2')" and
    r2: "r2 = build_result rs2 bm2"
    by (rule compare_Inr)
  from pre1 pre2 have up: "up8' = up8" by simp
  have same: "rs2 c = rs1 c" if "last_draw env n cats1 g1 c = last_draw env n cats2 g2 c" for c
    using category_loop_last_draw [OF loop1, of c]
      category_loop_last_draw [OF loop2 [unfolded up], of c] that
    by simp
  from build_result_two_keys [OF same [OF assms(3)] same [OF assms(4)],
      where bm = bm1 and x = None and ?bm2.0 = bm2]
  have "(build_result rs1 bm1)\<lparr>best_match := None\<rparr> = (build_result rs2 bm2)\<lparr>best_match := None\<rparr>" .
  then have "summary r1 = summary r2 \<and> confidence_diff r1 = confidence_diff r2 \<and>
      prediction r1 = prediction r2"
    unfolding r1 r2 by (metis comparison.select_convs(2,3,4) comparison.surjective comparison.update_convs(1))
  moreover have "dom (summary r1) = {''NORMAL'', ''PNEUMONIA''}"
    unfolding r1 by (rule dom_summary_build_result)
  ultimately show ?thesis by (simp only: simp_thms)
qed

theorem summary_from_two_draws_witness:
  "compare_with_dataset demo_env 0 ''upload.png'' 40 [''EXTRA'', ''NORMAL'', ''PNEUMONIA''] =
     Inr (demo_result\<lparr>best_match := Some \<lparr>category = Some ''EXTRA'', ssim = 1, mse_of = Finite 0,
                                           path = Some ''/app/data/EXTRA/e1.jpeg''\<rparr>\<rparr>) \<and>
   compare_with_dataset demo_env 0 ''upload.png'' 40 [''NORMAL'', ''PNEUMONIA''] = Inr demo_result \<and>
   last_draw demo_env 40 [''EXTRA'', ''NORMAL'', ''PNEUMONIA''] 0 ''NORMAL'' =
     last_draw demo_env 40 [''NORMAL'', ''PNEUMONIA''] 0 ''NORMAL'' \<and>
   last_draw demo_env 40 [''EXTRA'', ''NORMAL'', ''PNEUMONIA''] 0 ''PNEUMONIA'' =
     last_draw demo_env 40 [''NORMAL'', ''PNEUMONIA''] 0 ''PNEUMONIA'' \<and>
   dom (summary demo_result) = {''NORMAL'', ''PNEUMONIA''}"
proof -
  have N: "last_draw demo_env 40 [''EXTRA'', ''NORMAL'', ''PNEUMONIA''] 0 ''NORMAL'' =
      last_draw demo_env 40 [''NORMAL'', ''PNEUMONIA''] 0 ''NORMAL''"
    and P: "last_draw demo_env 40 [''EXTRA'', ''NORMAL'', ''PNEUMONIA''] 0 ''PNEUMONIA'' =
      last_draw demo_env 40 [''NORMAL'', ''PNEUMONIA''] 0 ''PNEUMONIA''"
    by (simp_all only: demo_last_draws)
  from summary_from_two_draws [OF extra_run demo_run N P] N P
  show ?thesis by (simp add: extra_run demo_run)
qed

text \<open>
  C10 as stated fails: a category other than NORMAL and PNEUMONIA also advances the
  random source the draws share. Where two images are listed for NORMAL and the draw
  depends on the state of the random source, naming \<^verbatim>\<open>EXTRA\<close> first changes the file
  sampled for NORMAL, and with it the score of NORMAL (3/4 becomes 1/4), the
  percentages, \<^verbatim>\<open>confidence_diff\<close> and the prediction, in the same world and from the same
  random state.
\<close>

theorem summary_counterexample:
  "compare_with_dataset rot_env 0 ''upload.png'' 1 [''NORMAL'', ''PNEUMONIA''] =
     Inr \<lparr>best_match = Some \<lparr>category = Some ''NORMAL'', ssim = 3 / 4, mse_of = Finite (256 / 2601),
                              path = Some ''/app/data/NORMAL/n1.png''\<rparr>,
          summary = [''NORMAL'' \<mapsto> \<lparr>entry_avg_ssim = 3 / 4, entry_avg_mse = Some (256 / 2601),
                                     similarity_percent = 75, entry_samples_compared = 1\<rparr>,
                     ''PNEUMONIA'' \<mapsto> \<lparr>entry_avg_ssim = 1 / 4, entry_avg_mse = Some (1600 / 2601),
                                     similarity_percent = 25, entry_samples_compared = 1\<rparr>],
          confidence_diff = 1 / 2,
          prediction = Normal_Lungs\<rparr> \<and>
   compare_with_dataset rot_env 0 ''upload.png'' 1 [''EXTRA'', ''NORMAL'', ''PNEUMONIA''] =
     Inr \<lparr>best_match = Some \<lparr>category = Some ''EXTRA'', ssim = 1, mse_of = Finite 0,
                              path = Some ''/app/data/EXTRA/e1.jpeg''\<rparr>,
          summary = [''NORMAL'' \<mapsto> \<lparr>entry_avg_ssim = 1 / 4, entry_avg_mse = Some (1600 / 2601),
                                     similarity_percent = 50, entry_samples_compared = 1\<rparr>,
                     ''PNEUMONIA'' \<mapsto> \<lparr>entry_avg_ssim = 1 / 4, entry_avg_mse = Some (1600 / 2601),
                                     similarity_percent = 50, entry_samples_compared = 1\<rparr>],
          confidence_diff = 0,
          prediction = Uncertain_Result\<rparr>"
  by (simp only: rot_run rot_extra_run demo_result_def simp_thms)

end
